theory Spec2Isabelle
  imports Main "HOL-Library.AList"
begin

section \<open>Strings\<close>

text \<open>
  Go strings are byte sequences, here \<^typ>\<open>string\<close>; \<open>len\<close> is \<^const>\<open>length\<close>.
  \<open>strings.ToUpper\<close>, \<open>strings.ToLower\<close> and \<open>strings.EqualFold\<close> are modelled on
  ASCII letters, every other byte is left alone.
\<close>

definition upper_char :: "char \<Rightarrow> char" where
  "upper_char c =
     (case map_of (zip ''abcdefghijklmnopqrstuvwxyz'' ''ABCDEFGHIJKLMNOPQRSTUVWXYZ'') c of
        Some u \<Rightarrow> u | None \<Rightarrow> c)"

definition lower_char :: "char \<Rightarrow> char" where
  "lower_char c =
     (case map_of (zip ''ABCDEFGHIJKLMNOPQRSTUVWXYZ'' ''abcdefghijklmnopqrstuvwxyz'') c of
        Some l \<Rightarrow> l | None \<Rightarrow> c)"

definition ToUpper :: "string \<Rightarrow> string" where
  "ToUpper s = map upper_char s"

definition ToLower :: "string \<Rightarrow> string" where
  "ToLower s = map lower_char s"

definition EqualFold :: "string \<Rightarrow> string \<Rightarrow> bool" where
  "EqualFold a b = (ToLower a = ToLower b)"

text \<open>\<open>strings.HasPrefix(s, p)\<close>: \<open>p\<close> is an initial segment of \<open>s\<close>.\<close>

definition HasPrefix :: "string \<Rightarrow> string \<Rightarrow> bool" where
  "HasPrefix s p = (take (length p) s = p)"

text \<open>\<open>strings.Join\<close>.\<close>

fun Join :: "string list \<Rightarrow> string \<Rightarrow> string" where
  "Join [] sep = []"
| "Join [x] sep = x"
| "Join (x # y # ys) sep = x @ sep @ Join (y # ys) sep"

section \<open>Diagnostic model (internal/diagnostic/diagnostic.go)\<close>

text \<open>\<open>token.Pos\<close>: a line and a column.\<close>

record Pos =
  Line :: int
  Col :: int

record Position =
  PLine :: int
  Character :: int

record Range =
  Start :: Position
  End :: Position

datatype DiagnosticSeverity = SeverityError | SeverityWarning | SeverityInfo | SeverityHint

type_synonym DiagnosticCode = string

definition CodeSyntaxError :: DiagnosticCode where "CodeSyntaxError = ''syntax-error''"
definition CodeAmbiguousColumn :: DiagnosticCode where "CodeAmbiguousColumn = ''ambiguous-column''"
definition CodeInvalidSchema :: DiagnosticCode where "CodeInvalidSchema = ''invalid-schema''"
definition CodeTableNotFound :: DiagnosticCode where "CodeTableNotFound = ''table-not-found''"
definition CodeColumnNotFound :: DiagnosticCode where "CodeColumnNotFound = ''column-not-found''"
definition CodeUnusedAlias :: DiagnosticCode where "CodeUnusedAlias = ''unused-alias''"
definition CodeSelectStar :: DiagnosticCode where "CodeSelectStar = ''select-star''"
definition CodeNullComparison :: DiagnosticCode where "CodeNullComparison = ''null-comparison''"
definition CodeImplicitJoin :: DiagnosticCode where "CodeImplicitJoin = ''implicit-join''"
definition CodeReservedWordCase :: DiagnosticCode where "CodeReservedWordCase = ''reserved-word-case''"
definition CodeMissingSemicolon :: DiagnosticCode where "CodeMissingSemicolon = ''missing-semicolon''"

record Diagnostic =
  Range :: Range
  Severity :: DiagnosticSeverity
  Code :: DiagnosticCode
  Source :: string
  Message :: string

text \<open>\<open>posToRange\<close> subtracts one from every line and column it is given.\<close>

definition posToRange :: "Pos \<Rightarrow> Pos \<Rightarrow> Range" where
  "posToRange start end' =
     \<lparr> Start = \<lparr> PLine = Line start - 1, Character = Col start - 1 \<rparr>,
       End = \<lparr> PLine = Line end' - 1, Character = Col end' - 1 \<rparr> \<rparr>"

text \<open>
  The \<open>DiagnosticBuilder\<close> is the list of diagnostics added so far; \<open>Add\<close> appends, and
  \<open>Build\<close> returns the list. A validator is modelled by the list of diagnostics it adds,
  in order; the builder after it is the builder before it followed by that list.
\<close>

definition mkDiagnostic ::
  "DiagnosticSeverity \<Rightarrow> Pos \<Rightarrow> Pos \<Rightarrow> DiagnosticCode \<Rightarrow> string \<Rightarrow> Diagnostic" where
  "mkDiagnostic sev start end' code message =
     \<lparr> Range = posToRange start end', Severity = sev, Code = code,
       Source = ''sqls'', Message = message \<rparr>"

definition AddError :: "Pos \<Rightarrow> Pos \<Rightarrow> DiagnosticCode \<Rightarrow> string \<Rightarrow> Diagnostic" where
  "AddError = mkDiagnostic SeverityError"

definition AddWarning :: "Pos \<Rightarrow> Pos \<Rightarrow> DiagnosticCode \<Rightarrow> string \<Rightarrow> Diagnostic" where
  "AddWarning = mkDiagnostic SeverityWarning"

definition AddInfo :: "Pos \<Rightarrow> Pos \<Rightarrow> DiagnosticCode \<Rightarrow> string \<Rightarrow> Diagnostic" where
  "AddInfo = mkDiagnostic SeverityInfo"

definition AddHint :: "Pos \<Rightarrow> Pos \<Rightarrow> DiagnosticCode \<Rightarrow> string \<Rightarrow> Diagnostic" where
  "AddHint = mkDiagnostic SeverityHint"

text \<open>
  \<open>FormatError\<close>: the message template of a code with its arguments filled in by
  \<open>fmt.Sprintf\<close>. Every template uses \<open>%s\<close> only; an argument that is not supplied
  prints as \<open>%!s(MISSING)\<close>. A code without a template is printed with
  \<open>"%s: %v"\<close>, the arguments between brackets.
\<close>

definition quoted :: "string \<Rightarrow> string" where
  "quoted s = [CHR 0x27] @ s @ [CHR 0x27]"

definition arg :: "string list \<Rightarrow> nat \<Rightarrow> string" where
  "arg args i = (if i < length args then args ! i else ''%!s(MISSING)'')"

definition FormatError :: "DiagnosticCode \<Rightarrow> string list \<Rightarrow> string" where
  "FormatError code args =
     (if code = CodeTableNotFound then ''Table '' @ quoted (arg args 0) @ '' not found''
      else if code = CodeColumnNotFound then
        ''Column '' @ quoted (arg args 0) @ '' not found in table '' @ quoted (arg args 1)
      else if code = CodeAmbiguousColumn then
        ''Column '' @ quoted (arg args 0) @ '' is ambiguous, found in tables: '' @ arg args 1
      else if code = CodeInvalidSchema then
        ''Schema '' @ quoted (arg args 0) @ '' does not exist''
      else if code = CodeSelectStar then
        ''Use of SELECT * is discouraged, specify columns explicitly''
      else if code = CodeNullComparison then
        ''Comparing with NULL using '' @ quoted ''='' @ '' or '' @ quoted ''!='' @ '', use '' @
        quoted ''IS NULL'' @ '' or '' @ quoted ''IS NOT NULL''
      else if code = CodeUnusedAlias then
        ''Alias '' @ quoted (arg args 0) @ '' is defined but never used''
      else if code = CodeReservedWordCase then
        ''Reserved word '' @ quoted (arg args 0) @ '' should be '' @ arg args 1
      else if code = CodeMissingSemicolon then ''Missing semicolon at end of statement''
      else code @ '': ['' @ Join args '' '' @ '']'')"

section \<open>Tokens and syntax trees\<close>

text \<open>
  Modelled from the spec: the token and node types of the parser packages
  (\<open>token\<close>, \<open>ast\<close>), which the validators only read. A token has a kind, a value that
  may be an SQL word (with its keyword text), its text, and the positions where it starts
  and ends. Only the kinds the validators test are told apart.
\<close>

datatype Kind =
  SQLKeyword | Comma | Mult | Semicolon | Whitespace | Comment | MultilineComment
  | Eq | Neq | SingleQuotedString | OtherKind

record SQLWord =
  WordString :: string
  Keyword :: string

record SQLToken =
  Kind :: Kind
  Value :: "SQLWord option"
  TokString :: string
  From :: Pos
  To :: Pos

text \<open>
  Modelled from the spec: an \<open>Identifier\<close> has a name (\<open>NoQuoteString\<close>), a span
  (\<open>Pos\<close>, \<open>End\<close>), its raw lexical form (\<open>String\<close>) and a wildcard flag, over its
  token (\<open>GetToken\<close>).
\<close>

record Identifier =
  Tok :: SQLToken
  IdPos :: Pos
  IdEnd :: Pos
  IdString :: string
  NoQuoteString :: string
  IsWildcard :: bool

text \<open>
  Modelled from the spec: the nodes of the tree. A \<open>MemberIdentifier\<close> (the spec's
  qualified identifier) has a parent and a child identifier, an \<open>Aliased\<close> node a
  real-name subtree and an alias identifier, an \<open>IdentifierList\<close> its identifiers; the
  other containers hold ordered children only. The first argument of a container is
  \<open>GetTokens\<close>; the positions of a \<open>MemberIdentifier\<close> and an \<open>Aliased\<close> node are
  \<open>Pos\<close> and \<open>End\<close>, the position of a \<open>Statement\<close> is \<open>End\<close>. \<open>GetParent\<close> and
  \<open>GetChild\<close> of a \<open>MemberIdentifier\<close> are its parent and child identifier. The
  source's tests for a missing parent, child, alias or token never fail on such a tree.
\<close>

datatype Node =
    Identifier Identifier
  | Item SQLToken
  | MemberIdentifier "Node list" Identifier Identifier Pos Pos
  | Aliased "Node list" Node Identifier Pos Pos
  | IdentifierList "Node list" "Node list"
  | Statement "Node list" Pos
  | Comparison "Node list"
  | TokenList "Node list"

fun GetTokens :: "Node \<Rightarrow> Node list" where
  "GetTokens (Identifier i) = []"
| "GetTokens (Item t) = []"
| "GetTokens (MemberIdentifier toks p c ps en) = toks"
| "GetTokens (Aliased toks real al ps en) = toks"
| "GetTokens (IdentifierList toks ids) = toks"
| "GetTokens (Statement toks en) = toks"
| "GetTokens (Comparison toks) = toks"
| "GetTokens (TokenList toks) = toks"

text \<open>
  \<open>walk\<close> (util.go) calls its function on the node and then walks the children of a
  token list, depth first: the nodes it visits, in the order of the calls.
\<close>

fun walk :: "Node \<Rightarrow> Node list" where
  "walk (Identifier i) = [Identifier i]"
| "walk (Item t) = [Item t]"
| "walk (MemberIdentifier toks p c ps en) =
     MemberIdentifier toks p c ps en # concat (map walk toks)"
| "walk (Aliased toks real al ps en) = Aliased toks real al ps en # concat (map walk toks)"
| "walk (IdentifierList toks ids) = IdentifierList toks ids # concat (map walk toks)"
| "walk (Statement toks en) = Statement toks en # concat (map walk toks)"
| "walk (Comparison toks) = Comparison toks # concat (map walk toks)"
| "walk (TokenList toks) = TokenList toks # concat (map walk toks)"

text \<open>\<open>flattenTokens\<close>: the token of every leaf that \<open>walk\<close> visits.\<close>

fun tokenOf :: "Node \<Rightarrow> SQLToken list" where
  "tokenOf (Identifier i) = [Tok i]"
| "tokenOf (Item t) = [t]"
| "tokenOf n = []"

definition flattenTokens :: "Node \<Rightarrow> SQLToken list" where
  "flattenTokens node = concat (map tokenOf (walk node))"

text \<open>
  The parser and the extraction functions of \<open>parseutil\<close> are parameters of the model:
  \<open>Parse\<close> gives an error message or the tree, every extraction a list of nodes.
\<close>

record ParserAPI =
  Parse :: "string \<Rightarrow> string + Node"
  ExtractTableReferences :: "Node \<Rightarrow> Node list"
  ExtractTableReference :: "Node \<Rightarrow> Node list"
  ExtractTableFactor :: "Node \<Rightarrow> Node list"
  ExtractSelectExpr :: "Node \<Rightarrow> Node list"
  ExtractWhereCondition :: "Node \<Rightarrow> Node list"
  ExtractAliasedIdentifier :: "Node \<Rightarrow> Node list"

section \<open>Configuration (internal/lintconfig/config.go)\<close>

type_synonym RuleSeverity = string

record Config =
  Enabled :: bool
  CheckSyntax :: bool
  CheckTableReferences :: bool
  CheckColumnReferences :: bool
  CheckSchemaReferences :: bool
  WarnOnSelectStar :: bool
  WarnOnNullComparison :: bool
  WarnOnUnusedAlias :: bool
  WarnOnImplicitJoin :: bool
  WarnOnAmbiguousColumn :: bool
  CheckReservedWordCase :: RuleSeverity
  PreferredKeywordCase :: string
  CheckMissingSemicolon :: RuleSeverity
  MaxDiagnostics :: int
  LintOnChange :: bool
  LintOnSave :: bool
  DebugMode :: bool

definition DefaultConfig :: Config where
  "DefaultConfig =
     \<lparr> Enabled = True, CheckSyntax = True, CheckTableReferences = True,
       CheckColumnReferences = True, CheckSchemaReferences = True, WarnOnSelectStar = True,
       WarnOnNullComparison = True, WarnOnUnusedAlias = False, WarnOnImplicitJoin = True,
       WarnOnAmbiguousColumn = True, CheckReservedWordCase = ''off'',
       PreferredKeywordCase = ''upper'', CheckMissingSemicolon = ''off'',
       MaxDiagnostics = 100, LintOnChange = True, LintOnSave = True, DebugMode = False \<rparr>"

definition IsRuleEnabled :: "RuleSeverity \<Rightarrow> bool" where
  "IsRuleEnabled severity = (severity \<noteq> ''off'')"

definition GetDiagnosticSeverity :: "RuleSeverity \<Rightarrow> DiagnosticSeverity" where
  "GetDiagnosticSeverity ruleSeverity =
     (if ruleSeverity = ''error'' then SeverityError
      else if ruleSeverity = ''warning'' then SeverityWarning
      else if ruleSeverity = ''info'' then SeverityInfo
      else if ruleSeverity = ''hint'' then SeverityHint
      else SeverityWarning)"

section \<open>Schema catalog\<close>

text \<open>
  The catalog (\<open>database.DBCache\<close>) is read through five accessors, parameters of the
  model: the columns of a table by name, the columns of a table in a schema, the sorted
  schema and table names, and the tables of each schema (a Go map, here an association
  list read with \<^const>\<open>map_of\<close>). A linter without a catalog has \<open>None\<close>.
\<close>

record ColumnDesc =
  Table :: string
  Name :: string

record DBCache =
  ColumnDescs :: "string \<Rightarrow> ColumnDesc list option"
  ColumnDatabase :: "string \<Rightarrow> string \<Rightarrow> ColumnDesc list option"
  SortedSchemas :: "string list"
  SortedTables :: "string list"
  SchemaTables :: "(string \<times> string list) list"

section \<open>Table validator (internal/linter/validator/table\_validator.go)\<close>

definition partialKeywords :: "string list" where
  "partialKeywords =
     [''JOIN'', ''LEFT'', ''RIGHT'', ''INNER'', ''OUTER'', ''CROSS'', ''FULL'',
      ''WHERE'', ''GROUP'', ''ORDER'', ''HAVING'', ''LIMIT'', ''OFFSET'',
      ''UNION'', ''INTERSECT'', ''EXCEPT'',
      ''AND'', ''OR'', ''NOT'', ''IN'', ''EXISTS'', ''LIKE'', ''BETWEEN'',
      ''AS'', ''ON'', ''USING'', ''WITH'']"

definition mightBePartialKeyword :: "string \<Rightarrow> bool" where
  "mightBePartialKeyword s = list_ex (\<lambda>kw. HasPrefix kw (ToUpper s)) partialKeywords"

definition schemaExists :: "DBCache option \<Rightarrow> string \<Rightarrow> bool" where
  "schemaExists dbCache schemaName =
     (case dbCache of
        None \<Rightarrow> True
      | Some c \<Rightarrow> list_ex (\<lambda>schema. EqualFold schema schemaName) (SortedSchemas c))"

text \<open>
  \<open>tableExists\<close> reads the tables of a named schema under the name as written, then the
  default tables, then the tables of every schema of the map (each key once).
\<close>

definition tableExists :: "DBCache option \<Rightarrow> string \<Rightarrow> string \<Rightarrow> bool" where
  "tableExists dbCache tableName schemaName =
     (case dbCache of
        None \<Rightarrow> True
      | Some c \<Rightarrow>
          if schemaName \<noteq> [] then
            (case map_of (SchemaTables c) schemaName of
               Some tables \<Rightarrow> list_ex (\<lambda>table. EqualFold table tableName) tables
             | None \<Rightarrow> False)
          else
            list_ex (\<lambda>table. EqualFold table tableName) (SortedTables c) \<or>
            list_ex (\<lambda>(schema, tables). list_ex (\<lambda>table. EqualFold table tableName) tables)
              (AList.clearjunk (SchemaTables c)))"

definition formatTableName :: "string \<Rightarrow> string \<Rightarrow> string" where
  "formatTableName schema table = (if schema \<noteq> [] then schema @ ''.'' @ table else table)"

definition validateTableReference ::
  "DBCache option \<Rightarrow> string \<Rightarrow> string \<Rightarrow> Pos \<Rightarrow> Pos \<Rightarrow> Diagnostic list" where
  "validateTableReference dbCache schemaName tableName startPos endPos =
     (if tableName = [] \<and> schemaName = [] then []
      else if length tableName \<le> 4 \<and> mightBePartialKeyword tableName then []
      else if schemaName \<noteq> [] \<and> \<not> schemaExists dbCache schemaName then
        [AddError startPos endPos CodeInvalidSchema (FormatError CodeInvalidSchema [schemaName])]
      else if \<not> tableExists dbCache tableName schemaName then
        [AddError startPos endPos CodeTableNotFound
           (FormatError CodeTableNotFound [formatTableName schemaName tableName])]
      else [])"

fun validateNodeAsTable :: "DBCache option \<Rightarrow> Node \<Rightarrow> Diagnostic list" where
  "validateNodeAsTable dbCache (Identifier t) =
     validateTableReference dbCache [] (NoQuoteString t) (IdPos t) (IdEnd t)"
| "validateNodeAsTable dbCache (MemberIdentifier toks p c ps en) =
     validateTableReference dbCache (IdString p) (IdString c) ps en"
| "validateNodeAsTable dbCache (Aliased toks real al ps en) =
     (case real of
        Identifier r \<Rightarrow> validateTableReference dbCache [] (NoQuoteString r) ps en
      | MemberIdentifier rtoks rp rc rps ren \<Rightarrow>
          validateTableReference dbCache (IdString rp) (IdString rc) ps en
      | _ \<Rightarrow> [])"
| "validateNodeAsTable dbCache (IdentifierList toks ids) =
     concat (map (validateNodeAsTable dbCache) ids)"
| "validateNodeAsTable dbCache n = []"

text \<open>
  \<open>CheckImplicitJoins\<close>: one pass over the tokens of the whole parsed text with the two
  variables \<open>inFrom\<close> and \<open>lastComma\<close>; a keyword token never counts as a comma.
\<close>

fun implicitJoinScan :: "SQLToken list \<Rightarrow> bool \<Rightarrow> SQLToken option \<Rightarrow> SQLToken option" where
  "implicitJoinScan [] inFrom lastComma = lastComma"
| "implicitJoinScan (t # toks) inFrom lastComma =
     (if Kind t = SQLKeyword then
        (case Value t of
           Some w \<Rightarrow>
             (let up = ToUpper (Keyword w) in
              if up = ''FROM'' then implicitJoinScan toks True None
              else if up = ''JOIN'' \<or> up = ''WHERE'' \<or> up = ''ON'' then
                implicitJoinScan toks False lastComma
              else implicitJoinScan toks inFrom lastComma)
         | None \<Rightarrow> implicitJoinScan toks inFrom lastComma)
      else if inFrom \<and> Kind t = Comma then implicitJoinScan toks inFrom (Some t)
      else implicitJoinScan toks inFrom lastComma)"

definition CheckImplicitJoins :: "ParserAPI \<Rightarrow> string \<Rightarrow> Diagnostic list" where
  "CheckImplicitJoins api text =
     (case Parse api text of
        Inl err \<Rightarrow> []
      | Inr parsed \<Rightarrow>
          (case implicitJoinScan (flattenTokens parsed) False None of
             None \<Rightarrow> []
           | Some lastComma \<Rightarrow>
               [AddWarning (From lastComma) (To lastComma) CodeImplicitJoin
                  ''Implicit join detected, consider using explicit JOIN syntax'']))"

definition tableNodes :: "ParserAPI \<Rightarrow> Node \<Rightarrow> Node list" where
  "tableNodes api parsed =
     ExtractTableReferences api parsed @ ExtractTableReference api parsed @
     ExtractTableFactor api parsed"

definition TableValidator_Validate ::
  "ParserAPI \<Rightarrow> Config \<Rightarrow> DBCache option \<Rightarrow> string \<Rightarrow> Diagnostic list" where
  "TableValidator_Validate api config dbCache text =
     (if \<not> CheckTableReferences config then []
      else
        (case dbCache of
           None \<Rightarrow> []
         | Some c \<Rightarrow>
             (case Parse api text of
                Inl err \<Rightarrow> []
              | Inr parsed \<Rightarrow>
                  concat (map (validateNodeAsTable dbCache) (tableNodes api parsed)) @
                  (if WarnOnImplicitJoin config then CheckImplicitJoins api text else []))))"

section \<open>Column validator (internal/linter/validator/column\_validator.go)\<close>

text \<open>Go maps of the validator are association lists, read with \<^const>\<open>map_of\<close> and
  written with \<^const>\<open>AList.update\<close>, which keeps one entry for each key.\<close>

record TableInfo =
  DatabaseSchema :: string
  Name :: string
  Alias :: string

record ColumnContext =
  TableColumns :: "(string \<times> ColumnDesc list) list"
  TableAliases :: "(string \<times> string) list"
  AllColumns :: "(string \<times> ColumnDesc list) list"

text \<open>\<open>extractTables\<close>: \<open>toInfos\<close> gives the table infos of a node; its writes to
  the alias map are collected by \<open>aliasWrites\<close>, in the order in which they happen.\<close>

fun toInfos :: "Node \<Rightarrow> TableInfo list" where
  "toInfos (Identifier t) =
     [\<lparr> DatabaseSchema = [], Name = NoQuoteString t, Alias = [] \<rparr>]"
| "toInfos (MemberIdentifier toks p c ps en) =
     [\<lparr> DatabaseSchema = IdString p, Name = IdString c, Alias = [] \<rparr>]"
| "toInfos (Aliased toks real al ps en) =
     (case real of
        Identifier r \<Rightarrow>
          [\<lparr> DatabaseSchema = [], Name = NoQuoteString r, Alias = NoQuoteString al \<rparr>]
      | MemberIdentifier rtoks rp rc rps ren \<Rightarrow>
          [\<lparr> DatabaseSchema = IdString rp, Name = IdString rc, Alias = NoQuoteString al \<rparr>]
      | _ \<Rightarrow> [])"
| "toInfos (IdentifierList toks ids) = concat (map toInfos ids)"
| "toInfos n = []"

fun aliasWrites :: "Node \<Rightarrow> (string \<times> string) list" where
  "aliasWrites (Aliased toks real al ps en) =
     (case real of
        Identifier r \<Rightarrow> [(ToLower (NoQuoteString al), NoQuoteString r)]
      | MemberIdentifier rtoks rp rc rps ren \<Rightarrow>
          [(ToLower (NoQuoteString al), NoQuoteString rc)]
      | _ \<Rightarrow> [])"
| "aliasWrites (IdentifierList toks ids) = concat (map aliasWrites ids)"
| "aliasWrites n = []"

definition infoKey :: "TableInfo \<Rightarrow> string" where
  "infoKey ti = ToUpper (DatabaseSchema ti) @ [CHR 0x09] @ ToUpper (TableInfo.Name ti)"

fun dedupInfos :: "TableInfo list \<Rightarrow> string list \<Rightarrow> TableInfo list" where
  "dedupInfos [] seen = []"
| "dedupInfos (ti # tis) seen =
     (if infoKey ti \<in> set seen then dedupInfos tis seen
      else ti # dedupInfos tis (infoKey ti # seen))"

definition extractTables :: "ParserAPI \<Rightarrow> Node \<Rightarrow> TableInfo list \<times> (string \<times> string) list" where
  "extractTables api parsed =
     (dedupInfos (concat (map toInfos (tableNodes api parsed))) [],
      foldl (\<lambda>aliasMap (k, v). AList.update k v aliasMap) []
        (concat (map aliasWrites (tableNodes api parsed))))"

text \<open>\<open>buildColumnContext\<close>: the lookup of a table's columns, by bare name, then by
  schema-qualified name, then in every schema in sorted order; and the registration of a
  table whose columns were found and are not empty.\<close>

fun searchSchemas :: "DBCache \<Rightarrow> string list \<Rightarrow> string \<Rightarrow> ColumnDesc list option" where
  "searchSchemas c [] tableName = None"
| "searchSchemas c (schema # schemas) tableName =
     (case ColumnDatabase c schema tableName of
        Some cols \<Rightarrow> Some cols
      | None \<Rightarrow> searchSchemas c schemas tableName)"

definition lookupColumns :: "DBCache \<Rightarrow> TableInfo \<Rightarrow> ColumnDesc list option" where
  "lookupColumns c ti =
     (case ColumnDescs c (TableInfo.Name ti) of
        Some cols \<Rightarrow> Some cols
      | None \<Rightarrow>
          (case (if DatabaseSchema ti \<noteq> []
                 then ColumnDescs c (DatabaseSchema ti @ ''.'' @ TableInfo.Name ti) else None) of
             Some cols \<Rightarrow> Some cols
           | None \<Rightarrow> searchSchemas c (SortedSchemas c) (TableInfo.Name ti)))"

definition addColumn ::
  "(string \<times> ColumnDesc list) list \<Rightarrow> ColumnDesc \<Rightarrow> (string \<times> ColumnDesc list) list" where
  "addColumn allColumns col =
     (case map_of allColumns (ToLower (ColumnDesc.Name col)) of
        Some existing \<Rightarrow> AList.update (ToLower (ColumnDesc.Name col)) (existing @ [col]) allColumns
      | None \<Rightarrow> AList.update (ToLower (ColumnDesc.Name col)) [col] allColumns)"

definition registerTable :: "ColumnContext \<Rightarrow> TableInfo \<Rightarrow> ColumnDesc list \<Rightarrow> ColumnContext" where
  "registerTable context tableInfo cols =
     \<lparr> TableColumns =
         AList.update (ToLower (TableInfo.Name tableInfo)) cols (TableColumns context),
       TableAliases =
         AList.update (ToLower (TableInfo.Name tableInfo)) (TableInfo.Name tableInfo)
           (if Alias tableInfo \<noteq> []
            then AList.update (ToLower (Alias tableInfo)) (TableInfo.Name tableInfo)
                   (TableAliases context)
            else TableAliases context),
       AllColumns = foldl addColumn (AllColumns context) cols \<rparr>"

definition buildStep :: "DBCache \<Rightarrow> ColumnContext \<Rightarrow> TableInfo \<Rightarrow> ColumnContext" where
  "buildStep c context tableInfo =
     (case lookupColumns c tableInfo of
        Some cols \<Rightarrow> if cols \<noteq> [] then registerTable context tableInfo cols else context
      | None \<Rightarrow> context)"

definition emptyContext :: ColumnContext where
  "emptyContext = \<lparr> TableColumns = [], TableAliases = [], AllColumns = [] \<rparr>"

definition buildColumnContext :: "DBCache \<Rightarrow> TableInfo list \<Rightarrow> ColumnContext" where
  "buildColumnContext c tables = foldl (buildStep c) emptyContext tables"

text \<open>The skipped positions. The source keys them by the text \<open>line:col\<close>, which
  is the pair of the line and the column.\<close>

definition posKey :: "Pos \<Rightarrow> int \<times> int" where
  "posKey p = (Line p, Col p)"

fun memberPositions :: "Node \<Rightarrow> (int \<times> int) list" where
  "memberPositions (MemberIdentifier toks p c ps en) = [posKey (IdPos p), posKey (IdPos c)]"
| "memberPositions n = []"

fun collectTableRefPositions :: "Node \<Rightarrow> (int \<times> int) list" where
  "collectTableRefPositions (Identifier t) = [posKey (IdPos t)]"
| "collectTableRefPositions (MemberIdentifier toks p c ps en) =
     [posKey (IdPos c), posKey (IdPos p)]"
| "collectTableRefPositions (Aliased toks real al ps en) = collectTableRefPositions real"
| "collectTableRefPositions (IdentifierList toks ids) =
     concat (map collectTableRefPositions ids)"
| "collectTableRefPositions n = []"

fun aliasNamePositions :: "Node \<Rightarrow> (int \<times> int) list" where
  "aliasNamePositions (Aliased toks real al ps en) = [posKey (IdPos al)]"
| "aliasNamePositions n = []"

definition skipIdentifierPositions :: "ParserAPI \<Rightarrow> Node \<Rightarrow> (int \<times> int) list" where
  "skipIdentifierPositions api parsed =
     concat (map memberPositions (walk parsed)) @
     concat (map collectTableRefPositions (tableNodes api parsed)) @
     concat (map aliasNamePositions (walk parsed))"

text \<open>Qualified references: the function called on every node of the statement.\<close>

definition findColumns ::
  "DBCache \<Rightarrow> ColumnContext \<Rightarrow> string \<Rightarrow> ColumnDesc list option" where
  "findColumns c ctx tableName =
     (case map_of (TableColumns ctx) (ToLower tableName) of
        Some cols \<Rightarrow> Some cols
      | None \<Rightarrow>
          (case ColumnDescs c tableName of
             Some cols \<Rightarrow> Some cols
           | None \<Rightarrow> searchSchemas c (SortedSchemas c) tableName))"

fun validateQualified ::
  "DBCache \<Rightarrow> (string \<times> string) list \<Rightarrow> TableInfo list \<Rightarrow> ColumnContext \<Rightarrow> Node \<Rightarrow>
   Diagnostic list" where
  "validateQualified c aliasMap tables ctx (MemberIdentifier toks parent child ps en) =
     (let parentName = NoQuoteString parent;
          isValidAlias = (map_of aliasMap (ToLower parentName) \<noteq> None);
          tableName = (case map_of aliasMap (ToLower parentName) of
                         Some t \<Rightarrow> t | None \<Rightarrow> parentName)
      in
        if \<not> isValidAlias \<and> map_of (TableColumns ctx) (ToLower parentName) = None \<and>
           \<not> list_ex (\<lambda>tableInfo. EqualFold (TableInfo.Name tableInfo) parentName \<or>
                                  EqualFold (Alias tableInfo) parentName) tables
        then
          [AddError (IdPos parent) (IdEnd parent) CodeTableNotFound
             (''Table or alias '' @ quoted parentName @ '' not found in query'')]
        else
          (let colName = NoQuoteString child in
           if IsWildcard child \<or> colName = ''*'' \<or> colName = [] then []
           else
             (case findColumns c ctx tableName of
                None \<Rightarrow> []
              | Some cols \<Rightarrow>
                  if cols = [] then []
                  else if list_ex (\<lambda>col. EqualFold (ColumnDesc.Name col) colName) cols then []
                  else
                    [AddError (IdPos child) (IdEnd child) CodeColumnNotFound
                       (FormatError CodeColumnNotFound [colName, tableName])])))"
| "validateQualified c aliasMap tables ctx n = []"

text \<open>Unqualified identifiers.\<close>

definition commonKeywords :: "string list" where
  "commonKeywords =
     [''SELECT'', ''FROM'', ''WHERE'', ''JOIN'', ''LEFT'', ''RIGHT'', ''INNER'', ''OUTER'',
      ''ON'', ''AND'', ''OR'', ''NOT'', ''IN'', ''EXISTS'', ''BETWEEN'', ''LIKE'',
      ''ORDER'', ''GROUP'', ''BY'', ''HAVING'', ''LIMIT'', ''OFFSET'',
      ''INSERT'', ''UPDATE'', ''DELETE'', ''CREATE'', ''DROP'', ''ALTER'',
      ''AS'', ''ASC'', ''DESC'', ''NULL'', ''IS'', ''TRUE'', ''FALSE'']"

definition looksLikeColumnReference :: "Identifier \<Rightarrow> bool" where
  "looksLikeColumnReference ident = (ToUpper (IdString ident) \<notin> set commonKeywords)"

definition isMySQLDriver :: "string \<Rightarrow> bool" where
  "isMySQLDriver driver =
     (driver = ''mysql'' \<or> driver = ''mysql8'' \<or> driver = ''mysql57'' \<or> driver = ''mysql56'')"

definition isStringLiteral :: "string \<Rightarrow> Identifier \<Rightarrow> bool" where
  "isStringLiteral driver ident =
     (if Kind (Tok ident) = SingleQuotedString then True
      else
        (let raw = TokString (Tok ident) in
         if length raw \<ge> 2 then
           (if hd raw = CHR 0x27 then True
            else if hd raw = CHR 0x22 \<and> isMySQLDriver driver then True
            else False)
         else False))"

text \<open>The distinct table names of a list of descriptors, in first-seen order.\<close>

definition uniqueTables :: "ColumnDesc list \<Rightarrow> string list" where
  "uniqueTables cols =
     foldl (\<lambda>unique c. if Table c \<in> set unique then unique else unique @ [Table c]) [] cols"

definition ambiguityCheck :: "Config \<Rightarrow> ColumnContext \<Rightarrow> Identifier \<Rightarrow> Diagnostic list" where
  "ambiguityCheck config ctx ident =
     (case map_of (AllColumns ctx) (ToLower (NoQuoteString ident)) of
        None \<Rightarrow> []
      | Some cols \<Rightarrow>
          if length cols > 1 \<and> WarnOnAmbiguousColumn config then
            (if length (uniqueTables cols) > 1 then
               [AddWarning (IdPos ident) (IdEnd ident) CodeAmbiguousColumn
                  (FormatError CodeAmbiguousColumn
                     [NoQuoteString ident, Join (uniqueTables cols) '', ''])]
             else [])
          else [])"

definition skipsIdentifier ::
  "string \<Rightarrow> (string \<times> string) list \<Rightarrow> (int \<times> int) list \<Rightarrow> Identifier \<Rightarrow> bool" where
  "skipsIdentifier driver aliasMap skip ident =
     (posKey (IdPos ident) \<in> set skip \<or> isStringLiteral driver ident \<or>
      NoQuoteString ident = [] \<or> IsWildcard ident \<or>
      map_of aliasMap (ToLower (NoQuoteString ident)) \<noteq> None)"

definition notFoundMessage :: "string \<Rightarrow> string" where
  "notFoundMessage name = ''Column '' @ quoted name @ '' not found in any referenced table''"

text \<open>The function of the SELECT-list sweep and of the WHERE sweep (the same text twice
  in the source).\<close>

fun checkSelectWhereIdent ::
  "Config \<Rightarrow> string \<Rightarrow> (string \<times> string) list \<Rightarrow> ColumnContext \<Rightarrow> (int \<times> int) list \<Rightarrow>
   Node \<Rightarrow> Diagnostic list" where
  "checkSelectWhereIdent config driver aliasMap ctx skip (Identifier ident) =
     (if skipsIdentifier driver aliasMap skip ident then []
      else if map_of (AllColumns ctx) (ToLower (NoQuoteString ident)) = None then
        (if length (TableColumns ctx) > 0 \<and> looksLikeColumnReference ident then
           [AddError (IdPos ident) (IdEnd ident) CodeColumnNotFound
              (notFoundMessage (NoQuoteString ident))]
         else [])
      else ambiguityCheck config ctx ident)"
| "checkSelectWhereIdent config driver aliasMap ctx skip n = []"

text \<open>The function of the sweep over the entire statement.\<close>

fun checkStandaloneIdent ::
  "Config \<Rightarrow> string \<Rightarrow> (string \<times> string) list \<Rightarrow> TableInfo list \<Rightarrow> ColumnContext \<Rightarrow>
   (int \<times> int) list \<Rightarrow> Node \<Rightarrow> Diagnostic list" where
  "checkStandaloneIdent config driver aliasMap tables ctx skip (Identifier ident) =
     (if skipsIdentifier driver aliasMap skip ident then []
      else if map_of (AllColumns ctx) (ToLower (NoQuoteString ident)) = None then
        (if list_ex (\<lambda>tableInfo. EqualFold (TableInfo.Name tableInfo) (NoQuoteString ident)) tables
         then
           [AddError (IdPos ident) (IdEnd ident) CodeColumnNotFound
              (quoted (NoQuoteString ident) @ '' is a table name, not a column. Did you mean '' @
               quoted (NoQuoteString ident @ ''.column_name'') @ ''?'')]
         else if length (TableColumns ctx) > 0 \<and> looksLikeColumnReference ident then
           [AddError (IdPos ident) (IdEnd ident) CodeColumnNotFound
              (notFoundMessage (NoQuoteString ident))]
         else [])
      else ambiguityCheck config ctx ident)"
| "checkStandaloneIdent config driver aliasMap tables ctx skip n = []"

definition ColumnValidator_Validate ::
  "ParserAPI \<Rightarrow> Config \<Rightarrow> DBCache option \<Rightarrow> string \<Rightarrow> string \<Rightarrow> Diagnostic list" where
  "ColumnValidator_Validate api config dbCache driver text =
     (if \<not> CheckColumnReferences config then []
      else
        (case dbCache of
           None \<Rightarrow> []
         | Some c \<Rightarrow>
             (case Parse api text of
                Inl err \<Rightarrow> []
              | Inr parsed \<Rightarrow>
                  (let tables = fst (extractTables api parsed);
                       aliasMap = snd (extractTables api parsed);
                       ctx = buildColumnContext c tables;
                       skip = skipIdentifierPositions api parsed
                   in
                     concat (map (validateQualified c aliasMap tables ctx) (walk parsed)) @
                     concat (map (\<lambda>node.
                         concat (map (checkSelectWhereIdent config driver aliasMap ctx skip)
                                   (walk node)))
                       (ExtractSelectExpr api parsed)) @
                     concat (map (\<lambda>node.
                         concat (map (checkSelectWhereIdent config driver aliasMap ctx skip)
                                   (walk node)))
                       (ExtractWhereCondition api parsed)) @
                     concat (map (checkStandaloneIdent config driver aliasMap tables ctx skip)
                       (walk parsed))))))"

section \<open>Syntax and style validators\<close>

definition isKeyword :: "SQLToken \<Rightarrow> string \<Rightarrow> bool" where
  "isKeyword t kw =
     (Kind t = SQLKeyword \<and>
      (case Value t of Some w \<Rightarrow> EqualFold (Keyword w) kw | None \<Rightarrow> False))"

text \<open>\<open>checkNullComparisons\<close>: in every comparison, whether a NULL keyword occurs and
  the positions of the last \<open>=\<close> or \<open>!=\<close> token; the zero position stands for none.\<close>

definition zeroPos :: Pos where
  "zeroPos = \<lparr> Line = 0, Col = 0 \<rparr>"

definition nullComparison :: "Node \<Rightarrow> Diagnostic list" where
  "nullComparison n =
     (case n of
        Comparison ctoks \<Rightarrow>
          (let toks = flattenTokens n;
               hasNull = list_ex (\<lambda>t. isKeyword t ''NULL'') toks;
               ops = filter (\<lambda>t. Kind t = Eq \<or> Kind t = Neq) toks;
               opFrom = (if ops = [] then zeroPos else From (last ops));
               opTo = (if ops = [] then zeroPos else To (last ops))
           in if hasNull \<and> opFrom \<noteq> zeroPos then
                [AddWarning opFrom opTo CodeNullComparison (FormatError CodeNullComparison [])]
              else [])
      | _ \<Rightarrow> [])"

definition checkNullComparisons :: "Config \<Rightarrow> Node \<Rightarrow> Diagnostic list" where
  "checkNullComparisons config parsed =
     (if \<not> WarnOnNullComparison config then []
      else concat (map nullComparison (walk parsed)))"

definition SyntaxValidator_Validate :: "Config \<Rightarrow> Node \<Rightarrow> Diagnostic list" where
  "SyntaxValidator_Validate config parsed = checkNullComparisons config parsed"

text \<open>\<open>CheckSelectStar\<close>: in every statement, the first \<open>*\<close> after a SELECT keyword
  and before the next FROM keyword.\<close>

fun selectStarScan :: "SQLToken list \<Rightarrow> bool \<Rightarrow> Diagnostic list" where
  "selectStarScan [] sawSelect = []"
| "selectStarScan (t # toks) sawSelect =
     (if isKeyword t ''SELECT'' then selectStarScan toks True
      else if sawSelect then
        (if Kind t = Mult then
           [AddWarning (From t) (To t) CodeSelectStar (FormatError CodeSelectStar [])]
         else if isKeyword t ''FROM'' then []
         else selectStarScan toks sawSelect)
      else selectStarScan toks sawSelect)"

definition selectStar :: "Node \<Rightarrow> Diagnostic list" where
  "selectStar n =
     (case n of Statement stoks en \<Rightarrow> selectStarScan (flattenTokens n) False | _ \<Rightarrow> [])"

definition CheckSelectStar :: "Config \<Rightarrow> Node \<Rightarrow> Diagnostic list" where
  "CheckSelectStar config parsed =
     (if \<not> WarnOnSelectStar config then [] else concat (map selectStar (walk parsed)))"

definition addWithSeverity ::
  "DiagnosticSeverity \<Rightarrow> Pos \<Rightarrow> Pos \<Rightarrow> DiagnosticCode \<Rightarrow> string \<Rightarrow> Diagnostic list" where
  "addWithSeverity severity from to code message =
     (case severity of
        SeverityError \<Rightarrow> [AddError from to code message]
      | SeverityWarning \<Rightarrow> [AddWarning from to code message]
      | SeverityInfo \<Rightarrow> [AddInfo from to code message]
      | SeverityHint \<Rightarrow> [AddHint from to code message])"

definition emitCaseDiagnostic ::
  "Pos \<Rightarrow> Pos \<Rightarrow> string \<Rightarrow> DiagnosticSeverity \<Rightarrow> Diagnostic list" where
  "emitCaseDiagnostic from to expectedCase severity =
     addWithSeverity severity from to CodeReservedWordCase
       (FormatError CodeReservedWordCase [''keyword'', expectedCase])"

definition reservedWordCase :: "Config \<Rightarrow> SQLToken \<Rightarrow> Diagnostic list" where
  "reservedWordCase config t =
     (if Kind t \<noteq> SQLKeyword then []
      else
        (case Value t of
           None \<Rightarrow> []
         | Some w \<Rightarrow>
             (let preferUpper = (ToLower (PreferredKeywordCase config) = ''upper'');
                  sev = GetDiagnosticSeverity (CheckReservedWordCase config);
                  val = WordString w;
                  isUpper = (val = ToUpper val);
                  isLower = (val = ToLower val)
              in (if preferUpper \<and> \<not> isUpper \<and> isLower
                  then emitCaseDiagnostic (From t) (To t) ''uppercase'' sev else []) @
                 (if \<not> preferUpper \<and> \<not> isLower \<and> isUpper
                  then emitCaseDiagnostic (From t) (To t) ''lowercase'' sev else []))))"

definition checkReservedWordCase :: "Config \<Rightarrow> Node \<Rightarrow> Diagnostic list" where
  "checkReservedWordCase config parsed =
     concat (map (reservedWordCase config) (flattenTokens parsed))"

text \<open>\<open>checkMissingSemicolon\<close>: the last token of a statement that is neither white
  space nor a comment, if there is one, must be a semicolon.\<close>

definition missingSemicolon :: "Config \<Rightarrow> Node \<Rightarrow> Diagnostic list" where
  "missingSemicolon config n =
     (case n of
        Statement stoks end' \<Rightarrow>
          (let toks = filter (\<lambda>t. Kind t \<noteq> Whitespace \<and> Kind t \<noteq> Comment \<and>
                                   Kind t \<noteq> MultilineComment) (flattenTokens n)
           in if toks = [] then []
              else if Kind (last toks) \<noteq> Semicolon then
                addWithSeverity (GetDiagnosticSeverity (CheckMissingSemicolon config))
                  end' end' CodeMissingSemicolon (FormatError CodeMissingSemicolon [])
              else [])
      | _ \<Rightarrow> [])"

definition checkMissingSemicolon :: "Config \<Rightarrow> Node \<Rightarrow> Diagnostic list" where
  "checkMissingSemicolon config parsed = concat (map (missingSemicolon config) (walk parsed))"

definition StyleValidator_Validate :: "Config \<Rightarrow> Node \<Rightarrow> Diagnostic list" where
  "StyleValidator_Validate config parsed =
     (if IsRuleEnabled (CheckReservedWordCase config)
      then checkReservedWordCase config parsed else []) @
     (if IsRuleEnabled (CheckMissingSemicolon config)
      then checkMissingSemicolon config parsed else [])"

text \<open>
  \<open>CheckUnusedAliases\<close> collects the alias definitions in a Go map and then ranges over
  that map. Go leaves the order of a range over a map to the run time, and it may differ
  from one range to the next. The order is the parameter \<open>order\<close>: a function that
  rearranges the entries of the map. It stands for a run of the program when it returns
  a permutation of its argument (\<open>rangeOrder\<close>).
\<close>

type_synonym MapOrder = "(string \<times> Identifier) list \<Rightarrow> (string \<times> Identifier) list"

definition rangeOrder :: "MapOrder \<Rightarrow> (string \<times> Identifier) list \<Rightarrow> bool" where
  "rangeOrder order entries =
     (length (order entries) = length entries \<and> set (order entries) = set entries)"

fun aliasDefinition :: "Node \<Rightarrow> (string \<times> Identifier) list" where
  "aliasDefinition (Aliased toks real al ps en) = [(ToLower (NoQuoteString al), al)]"
| "aliasDefinition n = []"

definition aliasDefs :: "ParserAPI \<Rightarrow> Node \<Rightarrow> (string \<times> Identifier) list" where
  "aliasDefs api parsed =
     foldl (\<lambda>defs (k, v). AList.update k v defs) []
       (concat (map aliasDefinition (ExtractAliasedIdentifier api parsed)))"

fun usedQualifier :: "Node \<Rightarrow> string list" where
  "usedQualifier (MemberIdentifier toks p c ps en) = [ToLower (NoQuoteString p)]"
| "usedQualifier n = []"

definition CheckUnusedAliases :: "MapOrder \<Rightarrow> ParserAPI \<Rightarrow> Config \<Rightarrow> Node \<Rightarrow> Diagnostic list" where
  "CheckUnusedAliases order api config parsed =
     (if \<not> WarnOnUnusedAlias config then []
      else if aliasDefs api parsed = [] then []
      else
        (let used = concat (map usedQualifier (walk parsed)) in
         concat (map (\<lambda>(name, ident).
             if name \<notin> set used then
               [AddWarning (IdPos ident) (IdEnd ident) CodeUnusedAlias
                  (FormatError CodeUnusedAlias [NoQuoteString ident])]
             else [])
           (order (aliasDefs api parsed)))))"

section \<open>Linter coordinator (internal/linter/linter.go)\<close>

definition limitDiagnostics :: "Config \<Rightarrow> Diagnostic list \<Rightarrow> Diagnostic list" where
  "limitDiagnostics config diagnostics =
     (if MaxDiagnostics config > 0 \<and> int (length diagnostics) > MaxDiagnostics config
      then take (nat (MaxDiagnostics config)) diagnostics
      else diagnostics)"

definition runValidators ::
  "MapOrder \<Rightarrow> ParserAPI \<Rightarrow> Config \<Rightarrow> DBCache option \<Rightarrow> string \<Rightarrow> string \<Rightarrow> Node \<Rightarrow>
   Diagnostic list" where
  "runValidators order api config dbCache driver text parsed =
     (if CheckSyntax config then SyntaxValidator_Validate config parsed else []) @
     (if CheckTableReferences config then TableValidator_Validate api config dbCache text else []) @
     (if CheckColumnReferences config
      then ColumnValidator_Validate api config dbCache driver text else []) @
     StyleValidator_Validate config parsed @
     (if WarnOnSelectStar config then CheckSelectStar config parsed else []) @
     (if WarnOnUnusedAlias config then CheckUnusedAliases order api config parsed else []) @
     (if WarnOnImplicitJoin config then CheckImplicitJoins api text else [])"

text \<open>\<open>Lint\<close> returns the diagnostics and the error value; \<open>None\<close> is Go's nil error.\<close>

definition Lint ::
  "MapOrder \<Rightarrow> ParserAPI \<Rightarrow> Config \<Rightarrow> DBCache option \<Rightarrow> string \<Rightarrow> string \<Rightarrow>
   Diagnostic list \<times> string option" where
  "Lint order api config dbCache driver text =
     (if \<not> Enabled config then ([], None)
      else
        (case Parse api text of
           Inl err \<Rightarrow>
             (limitDiagnostics config
                [AddError zeroPos zeroPos CodeSyntaxError (''Failed to parse SQL: '' @ err)],
              None)
         | Inr parsed \<Rightarrow>
             (limitDiagnostics config (runValidators order api config dbCache driver text parsed),
              None)))"

section \<open>Notions of the specification\<close>

text \<open>A name is a case-insensitive prefix of a keyword: it is no longer than the
  keyword and equal, up to case, to the keyword's initial segment of its length.\<close>

definition isPrefixFold :: "string \<Rightarrow> string \<Rightarrow> bool" where
  "isPrefixFold s kw = (length s \<le> length kw \<and> EqualFold s (take (length s) kw))"

text \<open>The FROM keyword, the keywords that end a FROM span, and the comma tokens of a
  list of tokens.\<close>

definition isFromKeyword :: "SQLToken \<Rightarrow> bool" where
  "isFromKeyword t =
     (Kind t = SQLKeyword \<and>
      (case Value t of Some w \<Rightarrow> ToUpper (Keyword w) = ''FROM'' | None \<Rightarrow> False))"

definition endsFromSpan :: "SQLToken \<Rightarrow> bool" where
  "endsFromSpan t =
     (Kind t = SQLKeyword \<and>
      (case Value t of
         Some w \<Rightarrow> ToUpper (Keyword w) = ''JOIN'' \<or> ToUpper (Keyword w) = ''WHERE'' \<or>
                    ToUpper (Keyword w) = ''ON''
       | None \<Rightarrow> False))"

definition commas :: "SQLToken list \<Rightarrow> SQLToken list" where
  "commas toks = filter (\<lambda>t. Kind t = Comma) toks"

text \<open>The table infos of a list have names that differ up to case; and no alias of
  a table of the list is, up to case, the name of a table that stands earlier in the
  list.\<close>

definition tableNamesApart :: "TableInfo list \<Rightarrow> bool" where
  "tableNamesApart tables = distinct (map (\<lambda>ti. ToLower (TableInfo.Name ti)) tables)"

fun aliasesApart :: "TableInfo list \<Rightarrow> bool" where
  "aliasesApart [] = True"
| "aliasesApart (ti # rest) =
     (list_all (\<lambda>tj. Alias tj = [] \<or> ToLower (Alias tj) \<noteq> ToLower (TableInfo.Name ti)) rest \<and>
      aliasesApart rest)"

text \<open>The invariant of the column context, in two parts. Every key of \<open>tableColumns\<close>
  is a key of \<open>tableAliases\<close>, and its value there is the canonical name of its table:
  the \<open>Name\<close>, as written, of a table info of the list whose lower-cased name is the key.
  And \<open>allColumns\<close> has, under every lower-cased column name, exactly the descriptors of
  that name of the column lists of \<open>tableColumns\<close> (none if there is no such descriptor).\<close>

definition aliasesCoverTables :: "TableInfo list \<Rightarrow> ColumnContext \<Rightarrow> bool" where
  "aliasesCoverTables tables ctx =
     list_all (\<lambda>(k, cols).
        list_ex (\<lambda>ti. ToLower (TableInfo.Name ti) = k \<and>
                       map_of (TableAliases ctx) k = Some (TableInfo.Name ti)) tables)
       (TableColumns ctx)"

definition groupedColumns :: "(string \<times> ColumnDesc list) list \<Rightarrow> string \<Rightarrow> ColumnDesc list" where
  "groupedColumns tableColumns cn =
     concat (map (\<lambda>(k, cols). filter (\<lambda>d. ToLower (ColumnDesc.Name d) = cn) cols) tableColumns)"

definition allColumnsIsUnion :: "ColumnContext \<Rightarrow> bool" where
  "allColumnsIsUnion ctx =
     (\<forall>cn. map_of (AllColumns ctx) cn =
        (if groupedColumns (TableColumns ctx) cn = [] then None
         else Some (groupedColumns (TableColumns ctx) cn)))"

text \<open>Invariant of the loop of \<open>buildColumnContext\<close>, used in the proofs.\<close>

definition unionInv :: "TableInfo list \<Rightarrow> ColumnContext \<Rightarrow> bool" where
  "unionInv rest ctx =
     (fst ` set (TableColumns ctx) \<inter> (\<lambda>ti. ToLower (TableInfo.Name ti)) ` set rest = {} \<and>
      allColumnsIsUnion ctx)"

definition columnsNonempty :: "ColumnContext \<Rightarrow> bool" where
  "columnsNonempty ctx = (\<forall>(k, cols) \<in> set (TableColumns ctx). cols \<noteq> [])"

text \<open>The values of one pass of the column validator over a parsed text: its table
  infos, its alias map and its column context.\<close>

definition passTables :: "ParserAPI \<Rightarrow> Node \<Rightarrow> TableInfo list" where
  "passTables api parsed = fst (extractTables api parsed)"

definition passAliases :: "ParserAPI \<Rightarrow> Node \<Rightarrow> (string \<times> string) list" where
  "passAliases api parsed = snd (extractTables api parsed)"

definition passContext :: "DBCache \<Rightarrow> ParserAPI \<Rightarrow> Node \<Rightarrow> ColumnContext" where
  "passContext c api parsed = buildColumnContext c (passTables api parsed)"

text \<open>The table that the qualifier of a reference resolves to: the alias map's entry for
  it, or the qualifier itself.\<close>

definition resolveQualifier :: "(string \<times> string) list \<Rightarrow> string \<Rightarrow> string" where
  "resolveQualifier aliasMap parentName =
     (case map_of aliasMap (ToLower parentName) of Some t \<Rightarrow> t | None \<Rightarrow> parentName)"

text \<open>A diagnostic is anchored at a token position: its range starts where
  \<open>posToRange\<close> puts that position.\<close>

definition startsAt :: "Pos \<Rightarrow> Diagnostic \<Rightarrow> bool" where
  "startsAt p d = (Start (Range d) = \<lparr> PLine = Line p - 1, Character = Col p - 1 \<rparr>)"

text \<open>Another qualified reference of the tree does not share a position with the parts
  of the reference \<open>parent.child\<close>.\<close>

fun positionsApart :: "Identifier \<Rightarrow> Identifier \<Rightarrow> Node \<Rightarrow> bool" where
  "positionsApart parent child (MemberIdentifier toks p c ps en) =
     (posKey (IdPos p) \<noteq> posKey (IdPos parent) \<and> posKey (IdPos p) \<noteq> posKey (IdPos child) \<and>
      posKey (IdPos c) \<noteq> posKey (IdPos parent) \<and> posKey (IdPos c) \<noteq> posKey (IdPos child))"
| "positionsApart parent child n = True"

text \<open>The elements of a list without repetition, each at its first occurrence.\<close>

definition firstSeen :: "string list \<Rightarrow> string list" where
  "firstSeen xs = rev (remdups (rev xs))"

text \<open>The codes of the semantic (table and column) diagnostics, and what
  \<open>runValidators\<close> runs besides the table and the column validator.\<close>

definition semanticCodes :: "DiagnosticCode set" where
  "semanticCodes =
     {CodeTableNotFound, CodeInvalidSchema, CodeColumnNotFound, CodeAmbiguousColumn}"

definition runWithoutCatalog ::
  "MapOrder \<Rightarrow> ParserAPI \<Rightarrow> Config \<Rightarrow> string \<Rightarrow> Node \<Rightarrow> Diagnostic list" where
  "runWithoutCatalog order api config text parsed =
     (if CheckSyntax config then SyntaxValidator_Validate config parsed else []) @
     StyleValidator_Validate config parsed @
     (if WarnOnSelectStar config then CheckSelectStar config parsed else []) @
     (if WarnOnUnusedAlias config then CheckUnusedAliases order api config parsed else []) @
     (if WarnOnImplicitJoin config then CheckImplicitJoins api text else [])"

section \<open>Example inputs\<close>

text \<open>The catalog of the specification's scenarios: a table \<open>users\<close> with the
  columns \<open>id\<close> and \<open>name\<close>, a table \<open>orders\<close> with the columns \<open>id\<close> and
  \<open>user_id\<close>, both in the one schema \<open>public\<close>; its lookups ignore case.\<close>

definition exCatalog :: DBCache where
  "exCatalog =
     \<lparr> ColumnDescs = (\<lambda>t.
         if ToLower t = ''users'' then
           Some [\<lparr> Table = ''users'', Name = ''id'' \<rparr>, \<lparr> Table = ''users'', Name = ''name'' \<rparr>]
         else if ToLower t = ''orders'' then
           Some [\<lparr> Table = ''orders'', Name = ''id'' \<rparr>,
                 \<lparr> Table = ''orders'', Name = ''user_id'' \<rparr>]
         else None),
       ColumnDatabase = (\<lambda>s t. None),
       SortedSchemas = [''public''],
       SortedTables = [''orders'', ''users''],
       SchemaTables = [(''public'', [''orders'', ''users''])] \<rparr>"

text \<open>Tokens and identifiers of a text of one line, by their text and the column
  where they start; in the examples the line is 1 and the first column is 1.\<close>

definition mkPos :: "int \<Rightarrow> int \<Rightarrow> Pos" where
  "mkPos l c = \<lparr> Line = l, Col = c \<rparr>"

definition keywordTok :: "string \<Rightarrow> int \<Rightarrow> SQLToken" where
  "keywordTok s c =
     \<lparr> Kind = SQLKeyword, Value = Some \<lparr> WordString = s, Keyword = ToUpper s \<rparr>,
       TokString = s, From = mkPos 1 c, To = mkPos 1 (c + int (length s)) \<rparr>"

definition wordTok :: "string \<Rightarrow> int \<Rightarrow> SQLToken" where
  "wordTok s c =
     \<lparr> Kind = OtherKind, Value = Some \<lparr> WordString = s, Keyword = [] \<rparr>,
       TokString = s, From = mkPos 1 c, To = mkPos 1 (c + int (length s)) \<rparr>"

definition symbolTok :: "Kind \<Rightarrow> string \<Rightarrow> int \<Rightarrow> SQLToken" where
  "symbolTok k s c =
     \<lparr> Kind = k, Value = None, TokString = s,
       From = mkPos 1 c, To = mkPos 1 (c + int (length s)) \<rparr>"

definition identAt :: "string \<Rightarrow> int \<Rightarrow> Identifier" where
  "identAt s c =
     \<lparr> Tok = wordTok s c, IdPos = mkPos 1 c, IdEnd = mkPos 1 (c + int (length s)),
       IdString = s, NoQuoteString = s, IsWildcard = False \<rparr>"

text \<open>The text \<open>SELECT id FROM users, orders\<close> (the ambiguous-column example of
  LINTER.md and of the specification), its tree, and a parser that knows this text only:
  the SELECT list is the identifier \<open>id\<close>, the table references are the list
  \<open>users, orders\<close>.\<close>

definition exText :: string where
  "exText = ''SELECT id FROM users, orders''"

definition exTables :: Node where
  "exTables =
     IdentifierList
       [Identifier (identAt ''users'' 16), Item (symbolTok Comma '','' 21),
        Item (symbolTok Whitespace '' '' 22), Identifier (identAt ''orders'' 23)]
       [Identifier (identAt ''users'' 16), Identifier (identAt ''orders'' 23)]"

definition exTree :: Node where
  "exTree =
     TokenList
       [Statement
          [Item (keywordTok ''SELECT'' 1), Item (symbolTok Whitespace '' '' 7),
           Identifier (identAt ''id'' 8), Item (symbolTok Whitespace '' '' 10),
           TokenList
             [Item (keywordTok ''FROM'' 11), Item (symbolTok Whitespace '' '' 15), exTables]]
          (mkPos 1 29)]"

definition exParser :: ParserAPI where
  "exParser =
     \<lparr> Parse = (\<lambda>t. if t = exText then Inr exTree else Inl ''syntax error''),
       ExtractTableReferences = (\<lambda>n. [exTables]),
       ExtractTableReference = (\<lambda>n. []),
       ExtractTableFactor = (\<lambda>n. []),
       ExtractSelectExpr = (\<lambda>n. [Identifier (identAt ''id'' 8)]),
       ExtractWhereCondition = (\<lambda>n. []),
       ExtractAliasedIdentifier = (\<lambda>n. []) \<rparr>"

definition implicitJoinWarning :: "int \<Rightarrow> Diagnostic" where
  "implicitJoinWarning c =
     AddWarning (mkPos 1 c) (mkPos 1 (c + 1)) CodeImplicitJoin
       ''Implicit join detected, consider using explicit JOIN syntax''"

definition ambiguousIdWarning :: Diagnostic where
  "ambiguousIdWarning =
     AddWarning (mkPos 1 8) (mkPos 1 10) CodeAmbiguousColumn
       (FormatError CodeAmbiguousColumn [''id'', ''users, orders''])"

text \<open>The text \<open>SELECT 1 FROM users u, orders o\<close>: two aliases, neither used as a
  qualifier. The configuration is the default one with the unused-alias warning on.\<close>

definition exAliasText :: string where
  "exAliasText = ''SELECT 1 FROM users u, orders o''"

definition exAliasedUsers :: Node where
  "exAliasedUsers =
     Aliased [Identifier (identAt ''users'' 15), Item (symbolTok Whitespace '' '' 20),
              Identifier (identAt ''u'' 21)]
       (Identifier (identAt ''users'' 15)) (identAt ''u'' 21) (mkPos 1 15) (mkPos 1 22)"

definition exAliasedOrders :: Node where
  "exAliasedOrders =
     Aliased [Identifier (identAt ''orders'' 24), Item (symbolTok Whitespace '' '' 30),
              Identifier (identAt ''o'' 31)]
       (Identifier (identAt ''orders'' 24)) (identAt ''o'' 31) (mkPos 1 24) (mkPos 1 32)"

definition exAliasTables :: Node where
  "exAliasTables =
     IdentifierList
       [exAliasedUsers, Item (symbolTok Comma '','' 22), Item (symbolTok Whitespace '' '' 23),
        exAliasedOrders]
       [exAliasedUsers, exAliasedOrders]"

definition exAliasTree :: Node where
  "exAliasTree =
     TokenList
       [Statement
          [Item (keywordTok ''SELECT'' 1), Item (symbolTok Whitespace '' '' 7),
           Item (symbolTok OtherKind ''1'' 8), Item (symbolTok Whitespace '' '' 9),
           TokenList
             [Item (keywordTok ''FROM'' 10), Item (symbolTok Whitespace '' '' 14), exAliasTables]]
          (mkPos 1 32)]"

definition exAliasParser :: ParserAPI where
  "exAliasParser =
     \<lparr> Parse = (\<lambda>t. if t = exAliasText then Inr exAliasTree else Inl ''syntax error''),
       ExtractTableReferences = (\<lambda>n. [exAliasTables]),
       ExtractTableReference = (\<lambda>n. []),
       ExtractTableFactor = (\<lambda>n. []),
       ExtractSelectExpr = (\<lambda>n. []),
       ExtractWhereCondition = (\<lambda>n. []),
       ExtractAliasedIdentifier = (\<lambda>n. [exAliasedUsers, exAliasedOrders]) \<rparr>"

definition exAliasConfig :: Config where
  "exAliasConfig = DefaultConfig \<lparr> WarnOnUnusedAlias := True \<rparr>"

definition unusedAliasWarning :: "string \<Rightarrow> int \<Rightarrow> Diagnostic" where
  "unusedAliasWarning a c =
     AddWarning (mkPos 1 c) (mkPos 1 (c + 1)) CodeUnusedAlias (FormatError CodeUnusedAlias [a])"

text \<open>The text \<open>SELECT u.nam FROM users u\<close>: the alias \<open>u\<close> stands for \<open>users\<close>,
  which has no column \<open>nam\<close>.\<close>

definition exQualText :: string where
  "exQualText = ''SELECT u.nam FROM users u''"

definition exMember :: Node where
  "exMember =
     MemberIdentifier
       [Identifier (identAt ''u'' 8), Item (symbolTok OtherKind ''.'' 9),
        Identifier (identAt ''nam'' 10)]
       (identAt ''u'' 8) (identAt ''nam'' 10) (mkPos 1 8) (mkPos 1 13)"

definition exQualTable :: Node where
  "exQualTable =
     Aliased [Identifier (identAt ''users'' 19), Item (symbolTok Whitespace '' '' 24),
              Identifier (identAt ''u'' 25)]
       (Identifier (identAt ''users'' 19)) (identAt ''u'' 25) (mkPos 1 19) (mkPos 1 26)"

definition exQualTree :: Node where
  "exQualTree =
     TokenList
       [Statement
          [Item (keywordTok ''SELECT'' 1), Item (symbolTok Whitespace '' '' 7), exMember,
           Item (symbolTok Whitespace '' '' 13),
           TokenList
             [Item (keywordTok ''FROM'' 14), Item (symbolTok Whitespace '' '' 18), exQualTable]]
          (mkPos 1 26)]"

definition exQualParser :: ParserAPI where
  "exQualParser =
     \<lparr> Parse = (\<lambda>t. if t = exQualText then Inr exQualTree else Inl ''syntax error''),
       ExtractTableReferences = (\<lambda>n. []),
       ExtractTableReference = (\<lambda>n. [exQualTable]),
       ExtractTableFactor = (\<lambda>n. []),
       ExtractSelectExpr = (\<lambda>n. [exMember]),
       ExtractWhereCondition = (\<lambda>n. []),
       ExtractAliasedIdentifier = (\<lambda>n. [exQualTable]) \<rparr>"

text \<open>The text \<open>SELECT * FROM a, b WHERE x IN (SELECT y FROM c)\<close>: one statement, with
  a comma between the two tables of its FROM clause and a second FROM in a subquery.
  Implicit-join detection reads the parser's result only through \<open>Parse\<close>.\<close>

definition exSubText :: string where
  "exSubText = ''SELECT * FROM a, b WHERE x IN (SELECT y FROM c)''"

definition exSubTree :: Node where
  "exSubTree =
     TokenList
       [Statement
          [Item (keywordTok ''SELECT'' 1), Item (symbolTok Whitespace '' '' 7),
           Item (symbolTok Mult ''*'' 8), Item (symbolTok Whitespace '' '' 9),
           TokenList
             [Item (keywordTok ''FROM'' 10), Item (symbolTok Whitespace '' '' 14),
              IdentifierList
                [Identifier (identAt ''a'' 15), Item (symbolTok Comma '','' 16),
                 Item (symbolTok Whitespace '' '' 17), Identifier (identAt ''b'' 18)]
                [Identifier (identAt ''a'' 15), Identifier (identAt ''b'' 18)]],
           Item (symbolTok Whitespace '' '' 19),
           TokenList
             [Item (keywordTok ''WHERE'' 20), Item (symbolTok Whitespace '' '' 25),
              Identifier (identAt ''x'' 26), Item (symbolTok Whitespace '' '' 27),
              Item (keywordTok ''IN'' 28), Item (symbolTok Whitespace '' '' 30),
              TokenList
                [Item (symbolTok OtherKind ''('' 31),
                 Item (keywordTok ''SELECT'' 32), Item (symbolTok Whitespace '' '' 38),
                 Identifier (identAt ''y'' 39), Item (symbolTok Whitespace '' '' 40),
                 TokenList
                   [Item (keywordTok ''FROM'' 41), Item (symbolTok Whitespace '' '' 45),
                    Identifier (identAt ''c'' 46)],
                 Item (symbolTok OtherKind '')'' 47)]]]
          (mkPos 1 48)]"

definition exSubParser :: ParserAPI where
  "exSubParser =
     \<lparr> Parse = (\<lambda>t. if t = exSubText then Inr exSubTree else Inl ''syntax error''),
       ExtractTableReferences = (\<lambda>n. []),
       ExtractTableReference = (\<lambda>n. []),
       ExtractTableFactor = (\<lambda>n. []),
       ExtractSelectExpr = (\<lambda>n. []),
       ExtractWhereCondition = (\<lambda>n. []),
       ExtractAliasedIdentifier = (\<lambda>n. []) \<rparr>"

text \<open>The text \<open>SELECT * FROM a, b; SELECT * FROM c, d\<close>: two statements, each
  with a comma between the two tables of its FROM clause, at columns 16 and 36.\<close>

definition exTwoText :: string where
  "exTwoText = ''SELECT * FROM a, b; SELECT * FROM c, d''"

definition exTwoTree :: Node where
  "exTwoTree =
     TokenList
       [Statement
          [Item (keywordTok ''SELECT'' 1), Item (symbolTok Whitespace '' '' 7),
           Item (symbolTok Mult ''*'' 8), Item (symbolTok Whitespace '' '' 9),
           TokenList
             [Item (keywordTok ''FROM'' 10), Item (symbolTok Whitespace '' '' 14),
              IdentifierList
                [Identifier (identAt ''a'' 15), Item (symbolTok Comma '','' 16),
                 Item (symbolTok Whitespace '' '' 17), Identifier (identAt ''b'' 18)]
                [Identifier (identAt ''a'' 15), Identifier (identAt ''b'' 18)]],
           Item (symbolTok Semicolon '';'' 19)]
          (mkPos 1 20),
        Statement
          [Item (symbolTok Whitespace '' '' 20),
           Item (keywordTok ''SELECT'' 21), Item (symbolTok Whitespace '' '' 27),
           Item (symbolTok Mult ''*'' 28), Item (symbolTok Whitespace '' '' 29),
           TokenList
             [Item (keywordTok ''FROM'' 30), Item (symbolTok Whitespace '' '' 34),
              IdentifierList
                [Identifier (identAt ''c'' 35), Item (symbolTok Comma '','' 36),
                 Item (symbolTok Whitespace '' '' 37), Identifier (identAt ''d'' 38)]
                [Identifier (identAt ''c'' 35), Identifier (identAt ''d'' 38)]]]
          (mkPos 1 39)]"

definition exTwoParser :: ParserAPI where
  "exTwoParser =
     \<lparr> Parse = (\<lambda>t. if t = exTwoText then Inr exTwoTree else Inl ''syntax error''),
       ExtractTableReferences = (\<lambda>n. []),
       ExtractTableReference = (\<lambda>n. []),
       ExtractTableFactor = (\<lambda>n. []),
       ExtractSelectExpr = (\<lambda>n. []),
       ExtractWhereCondition = (\<lambda>n. []),
       ExtractAliasedIdentifier = (\<lambda>n. []) \<rparr>"

text \<open>The text \<open>SELECT * FROM a, f(b, c)\<close>: the comma at column 16 separates the
  two items of the FROM clause, the comma at column 21 lies between the parentheses.\<close>

definition exNestedText :: string where
  "exNestedText = ''SELECT * FROM a, f(b, c)''"

definition exNestedCall :: Node where
  "exNestedCall =
     TokenList
       [Identifier (identAt ''f'' 18),
        TokenList
          [Item (symbolTok OtherKind ''('' 19),
           IdentifierList
             [Identifier (identAt ''b'' 20), Item (symbolTok Comma '','' 21),
              Item (symbolTok Whitespace '' '' 22), Identifier (identAt ''c'' 23)]
             [Identifier (identAt ''b'' 20), Identifier (identAt ''c'' 23)],
           Item (symbolTok OtherKind '')'' 24)]]"

definition exNestedTree :: Node where
  "exNestedTree =
     TokenList
       [Statement
          [Item (keywordTok ''SELECT'' 1), Item (symbolTok Whitespace '' '' 7),
           Item (symbolTok Mult ''*'' 8), Item (symbolTok Whitespace '' '' 9),
           TokenList
             [Item (keywordTok ''FROM'' 10), Item (symbolTok Whitespace '' '' 14),
              IdentifierList
                [Identifier (identAt ''a'' 15), Item (symbolTok Comma '','' 16),
                 Item (symbolTok Whitespace '' '' 17), exNestedCall]
                [Identifier (identAt ''a'' 15), exNestedCall]]]
          (mkPos 1 25)]"

definition exNestedParser :: ParserAPI where
  "exNestedParser =
     \<lparr> Parse = (\<lambda>t. if t = exNestedText then Inr exNestedTree else Inl ''syntax error''),
       ExtractTableReferences = (\<lambda>n. []),
       ExtractTableReference = (\<lambda>n. []),
       ExtractTableFactor = (\<lambda>n. []),
       ExtractSelectExpr = (\<lambda>n. []),
       ExtractWhereCondition = (\<lambda>n. []),
       ExtractAliasedIdentifier = (\<lambda>n. []) \<rparr>"

text \<open>Table infos, and a catalog with a table \<open>users\<close> in each of two schemas, found
  under its schema-qualified name only: \<open>s1.users\<close> has the column \<open>id\<close>,
  \<open>s2.users\<close> the column \<open>email\<close>.\<close>

definition tableInfo :: "string \<Rightarrow> string \<Rightarrow> string \<Rightarrow> TableInfo" where
  "tableInfo s n a = \<lparr> DatabaseSchema = s, Name = n, Alias = a \<rparr>"

definition exSchemaCatalog :: DBCache where
  "exSchemaCatalog =
     \<lparr> ColumnDescs = (\<lambda>t.
         if ToLower t = ''s1.users'' then Some [\<lparr> Table = ''users'', Name = ''id'' \<rparr>]
         else if ToLower t = ''s2.users'' then Some [\<lparr> Table = ''users'', Name = ''email'' \<rparr>]
         else None),
       ColumnDatabase = (\<lambda>s t. None),
       SortedSchemas = [''s1'', ''s2''],
       SortedTables = [],
       SchemaTables = [(''s1'', [''users'']), (''s2'', [''users''])] \<rparr>"

section \<open>Properties of the traversal\<close>

text \<open>\<open>walk\<close> visits the node and then, for a token list, walks its tokens in order.\<close>

lemma walk_GetTokens: "walk n = n # concat (map walk (GetTokens n))"
  by (cases n) simp_all

section \<open>Properties of the table validator\<close>

lemma upper_lower_char: "upper_char (lower_char c) = upper_char c"
  unfolding upper_char_def lower_char_def by (simp split: if_splits)

lemma ToUpper_ToLower: "ToUpper (ToLower s) = ToUpper s"
  by (simp add: ToUpper_def ToLower_def upper_lower_char)

lemma ToUpper_take: "ToUpper (take n s) = take n (ToUpper s)"
  by (simp add: ToUpper_def take_map)

lemma partialKeywords_upper: "kw \<in> set partialKeywords \<Longrightarrow> ToUpper kw = kw"
  unfolding partialKeywords_def ToUpper_def upper_char_def by auto

lemma isPrefixFold_partial:
  assumes "kw \<in> set partialKeywords" "isPrefixFold s kw"
  shows "mightBePartialKeyword s"
proof -
  have "ToLower s = ToLower (take (length s) kw)"
    using assms(2) by (simp add: isPrefixFold_def EqualFold_def)
  then have "ToUpper (ToLower s) = ToUpper (ToLower (take (length s) kw))" by simp
  then have "ToUpper s = take (length s) kw"
    by (simp add: ToUpper_ToLower ToUpper_take partialKeywords_upper[OF assms(1)])
  moreover have "length s \<le> length kw"
    using assms(2) by (simp add: isPrefixFold_def)
  ultimately have "HasPrefix kw (ToUpper s)"
    by (simp add: HasPrefix_def ToUpper_def min_def)
  with assms(1) show ?thesis
    by (auto simp: mightBePartialKeyword_def list_ex_iff)
qed

text \<open>
  C9: a candidate table name of length at most 4 that is a case-insensitive prefix of a
  keyword of the suppression list is not validated: \<open>validateTableReference\<close> adds no
  diagnostic for it (so neither invalid-schema nor table-not-found), whatever the catalog,
  the schema qualifier and the positions are.
\<close>

theorem partial_keyword_skipped:
  assumes "length tableName \<le> 4" "kw \<in> set partialKeywords" "isPrefixFold tableName kw"
  shows "validateTableReference dbCache schemaName tableName startPos endPos = []"
  using assms isPrefixFold_partial[OF assms(2,3)]
  by (simp add: validateTableReference_def)

theorem partial_keyword_skipped_witness:
  "length ''whe'' \<le> (4::nat) \<and> ''WHERE'' \<in> set partialKeywords \<and>
   isPrefixFold ''whe'' ''WHERE'' \<and>
   validateTableReference (Some exCatalog) ''nosuch'' ''whe'' (mkPos 1 15) (mkPos 1 25) = []"
proof -
  have a: "length ''whe'' \<le> (4::nat)" by simp
  have b: "''WHERE'' \<in> set partialKeywords" by (simp add: partialKeywords_def)
  have c: "isPrefixFold ''whe'' ''WHERE''"
    by (simp add: isPrefixFold_def EqualFold_def ToLower_def lower_char_def)
  show ?thesis using a b c partial_keyword_skipped[OF a b c] by simp
qed

text \<open>
  C8 (as amended): with a catalog attached, for a table reference that the
  partial-keyword rule does not suppress: if its schema qualifier is not empty and matches
  no schema of the catalog up to case, the only diagnostic is invalid-schema (so no
  table-not-found); if its schema is absent or exists and the table lookup fails, the only
  diagnostic is table-not-found.
\<close>

theorem schema_then_table:
  assumes "\<not> (length tableName \<le> 4 \<and> mightBePartialKeyword tableName)"
  shows "(schemaName \<noteq> [] \<and> \<not> schemaExists (Some c) schemaName \<longrightarrow>
            validateTableReference (Some c) schemaName tableName startPos endPos =
              [AddError startPos endPos CodeInvalidSchema
                 (FormatError CodeInvalidSchema [schemaName])]) \<and>
         ((schemaName = [] \<or> schemaExists (Some c) schemaName) \<and>
          \<not> tableExists (Some c) tableName schemaName \<longrightarrow>
            validateTableReference (Some c) schemaName tableName startPos endPos =
              [AddError startPos endPos CodeTableNotFound
                 (FormatError CodeTableNotFound [formatTableName schemaName tableName])])"
proof -
  have "\<not> (tableName = [] \<and> schemaName = [])"
    using assms
    by (auto simp: mightBePartialKeyword_def partialKeywords_def HasPrefix_def ToUpper_def)
  with assms show ?thesis
    by (auto simp: validateTableReference_def)
qed

lemma ghost_not_partial: "\<not> (length ''ghost'' \<le> 4 \<and> mightBePartialKeyword ''ghost'')"
  by simp

lemma nosuch_schema: "\<not> schemaExists (Some exCatalog) ''nosuch''"
  by (simp add: schemaExists_def exCatalog_def EqualFold_def ToLower_def lower_char_def)

lemma ghost_table: "\<not> tableExists (Some exCatalog) ''ghost'' []"
  by (simp add: tableExists_def exCatalog_def EqualFold_def ToLower_def lower_char_def)

theorem schema_then_table_witness:
  "\<not> (length ''ghost'' \<le> 4 \<and> mightBePartialKeyword ''ghost'') \<and>
   \<not> schemaExists (Some exCatalog) ''nosuch'' \<and>
   validateTableReference (Some exCatalog) ''nosuch'' ''ghost'' (mkPos 1 15) (mkPos 1 27) =
     [AddError (mkPos 1 15) (mkPos 1 27) CodeInvalidSchema
        (FormatError CodeInvalidSchema [''nosuch''])] \<and>
   \<not> tableExists (Some exCatalog) ''ghost'' [] \<and>
   validateTableReference (Some exCatalog) [] ''ghost'' (mkPos 1 15) (mkPos 1 20) =
     [AddError (mkPos 1 15) (mkPos 1 20) CodeTableNotFound
        (FormatError CodeTableNotFound [formatTableName [] ''ghost''])]"
  using schema_then_table[OF ghost_not_partial, of "''nosuch''" exCatalog "mkPos 1 15" "mkPos 1 27"]
    schema_then_table[OF ghost_not_partial, of "[]" exCatalog "mkPos 1 15" "mkPos 1 20"]
    ghost_not_partial nosuch_schema ghost_table
  by simp

theorem schema_then_table_counterexample:
  "\<not> schemaExists (Some exCatalog) ''nosuch'' \<and>
   validateTableReference (Some exCatalog) ''nosuch'' ''ord'' (mkPos 1 15) (mkPos 1 25) = []"
  by (simp add: schemaExists_def exCatalog_def EqualFold_def ToLower_def lower_char_def
      validateTableReference_def mightBePartialKeyword_def partialKeywords_def HasPrefix_def
      ToUpper_def upper_char_def)

subsection \<open>Implicit joins\<close>

lemma scan_from:
  "isFromKeyword t \<Longrightarrow>
   implicitJoinScan (t # toks) inFrom lastComma = implicitJoinScan toks True None"
  by (auto simp: isFromKeyword_def split: option.splits)

lemma scan_end:
  "endsFromSpan t \<Longrightarrow>
   implicitJoinScan (t # toks) inFrom lastComma = implicitJoinScan toks False lastComma"
  by (auto simp: endsFromSpan_def Let_def split: option.splits)

lemma scan_to_from:
  "isFromKeyword f \<Longrightarrow>
   implicitJoinScan (pre @ f # toks) inFrom lastComma = implicitJoinScan toks True None"
proof (induction pre arbitrary: inFrom lastComma)
  case Nil
  then show ?case by (simp add: scan_from del: implicitJoinScan.simps)
next
  case (Cons p pre)
  show ?case
    using Cons.IH[OF Cons.prems]
    by (simp add: Let_def split: option.splits)
qed

lemma scan_span:
  "list_all (\<lambda>t. \<not> isFromKeyword t \<and> \<not> endsFromSpan t) span \<Longrightarrow>
   implicitJoinScan (span @ toks) True lastComma =
     implicitJoinScan toks True
       (if commas span = [] then lastComma else Some (last (commas span)))"
proof (induction span arbitrary: lastComma)
  case Nil
  then show ?case by (simp add: commas_def)
next
  case (Cons t span)
  from Cons.prems have t: "\<not> isFromKeyword t" "\<not> endsFromSpan t"
    and rest: "list_all (\<lambda>t. \<not> isFromKeyword t \<and> \<not> endsFromSpan t) span" by simp_all
  show ?case
  proof (cases "Kind t = Comma")
    case True
    then show ?thesis using Cons.IH[OF rest, of "Some t"] by (simp add: commas_def)
  next
    case False
    then show ?thesis
      using Cons.IH[OF rest, of lastComma] t
      by (auto simp: commas_def isFromKeyword_def endsFromSpan_def Let_def
          split: option.splits)
  qed
qed

lemma scan_outside:
  "list_all (\<lambda>t. \<not> isFromKeyword t) toks \<Longrightarrow>
   implicitJoinScan toks False lastComma = lastComma"
  by (induction toks) (auto simp: isFromKeyword_def Let_def split: option.splits)

lemma scan_rest:
  assumes "rest = [] \<or> endsFromSpan (hd rest)" "list_all (\<lambda>t. \<not> isFromKeyword t) rest"
  shows "implicitJoinScan rest True lastComma = lastComma"
proof (cases rest)
  case Nil
  then show ?thesis by simp
next
  case (Cons r rest')
  with assms have "endsFromSpan r" "list_all (\<lambda>t. \<not> isFromKeyword t) rest'" by simp_all
  then show ?thesis
    unfolding Cons by (simp add: scan_end scan_outside del: implicitJoinScan.simps)
qed

lemma implicitJoin_at_most_one: "length (CheckImplicitJoins api text) \<le> 1"
  by (simp add: CheckImplicitJoins_def split: sum.splits option.splits)

text \<open>
  What the scan reports. Let the tokens of the parsed text be a FROM keyword, after any
  tokens, then a span without a FROM, JOIN, WHERE or ON keyword, and then either nothing
  or a JOIN, WHERE or ON keyword and a rest without FROM keyword. If the span holds a
  comma token (at any depth of nesting, which the scan does not follow), the warning is
  at the last comma of this span: the span of the last FROM keyword of the whole text,
  whatever the statements before it hold.
\<close>

lemma scan_last_from_span:
  assumes "Parse api text = Inr parsed"
    and "flattenTokens parsed = pre @ fromTok # span @ rest"
    and "isFromKeyword fromTok"
    and "list_all (\<lambda>t. \<not> isFromKeyword t \<and> \<not> endsFromSpan t) span"
    and "commas span \<noteq> []"
    and "rest = [] \<or> endsFromSpan (hd rest)"
    and "list_all (\<lambda>t. \<not> isFromKeyword t) rest"
  shows "CheckImplicitJoins api text =
           [AddWarning (From (last (commas span))) (To (last (commas span))) CodeImplicitJoin
              ''Implicit join detected, consider using explicit JOIN syntax'']"
proof -
  have "implicitJoinScan (flattenTokens parsed) False None = Some (last (commas span))"
    unfolding assms(2)
    by (simp add: scan_to_from[OF assms(3)] scan_span[OF assms(4)] assms(5)
        scan_rest[OF assms(6,7)] del: implicitJoinScan.simps)
  then show ?thesis
    by (simp add: CheckImplicitJoins_def assms(1))
qed

text \<open>
  C6: the code does not do what the claim says. For the single statement
  \<open>SELECT * FROM a, b WHERE x IN (SELECT y FROM c)\<close>, whose FROM span (from the FROM at
  column 10 to the WHERE at column 20) holds a top-level comma, implicit-join detection
  emits no warning: the FROM of the subquery clears the comma that was remembered. For the
  two statements \<open>SELECT * FROM a, b; SELECT * FROM c, d\<close>, each with a comma in its FROM
  span, it emits one warning for the whole text, at the comma of the second statement, and
  none for the first. For \<open>SELECT * FROM a, f(b, c)\<close> the warning is at the comma between
  the parentheses (column 21), not at the last top-level comma (column 16). And with a
  catalog attached \<open>Lint\<close> runs the detection twice: for \<open>SELECT id FROM users, orders\<close>
  it returns two implicit-join warnings at the one comma.
\<close>

theorem from_span_comma_lost:
  "flattenTokens exSubTree =
     take 4 (flattenTokens exSubTree) @ keywordTok ''FROM'' 10 #
     [symbolTok Whitespace '' '' 14, Tok (identAt ''a'' 15), symbolTok Comma '','' 16,
      symbolTok Whitespace '' '' 17, Tok (identAt ''b'' 18), symbolTok Whitespace '' '' 19] @
     keywordTok ''WHERE'' 20 # drop 12 (flattenTokens exSubTree) \<and>
   isFromKeyword (keywordTok ''FROM'' 10) \<and> endsFromSpan (keywordTok ''WHERE'' 20) \<and>
   CheckImplicitJoins exSubParser exSubText = [] \<and>
   commas (flattenTokens exTwoTree) = [symbolTok Comma '','' 16, symbolTok Comma '','' 36] \<and>
   CheckImplicitJoins exTwoParser exTwoText = [implicitJoinWarning 36] \<and>
   commas (flattenTokens exNestedTree) = [symbolTok Comma '','' 16, symbolTok Comma '','' 21] \<and>
   CheckImplicitJoins exNestedParser exNestedText = [implicitJoinWarning 21] \<and>
   CheckImplicitJoins exParser exText = [implicitJoinWarning 21] \<and>
   filter (\<lambda>d. Code d = CodeImplicitJoin)
     (fst (Lint id exParser DefaultConfig (Some exCatalog) ''mysql'' exText)) =
     [implicitJoinWarning 21, implicitJoinWarning 21]"
  by code_simp

section \<open>Properties of the scope builder\<close>

lemma update_fresh: "k \<notin> fst ` set al \<Longrightarrow> AList.update k v al = al @ [(k, v)]"
  by (induction al) auto

lemma keys_update: "fst ` set (AList.update k v al) = insert k (fst ` set al)"
  by (induction al) auto

lemma set_alist_update: "set (AList.update k v al) \<subseteq> insert (k, v) (set al)"
  by (induction al) auto

lemma map_of_addColumn:
  "map_of (addColumn ac col) cn =
     (if ToLower (ColumnDesc.Name col) = cn
      then Some ((case map_of ac cn of None \<Rightarrow> [] | Some xs \<Rightarrow> xs) @ [col])
      else map_of ac cn)"
  by (auto simp: addColumn_def update_conv' split: option.splits)

lemma map_of_addColumns:
  "map_of (foldl addColumn ac cols) cn =
     (if filter (\<lambda>d. ToLower (ColumnDesc.Name d) = cn) cols = [] then map_of ac cn
      else Some ((case map_of ac cn of None \<Rightarrow> [] | Some xs \<Rightarrow> xs) @
                 filter (\<lambda>d. ToLower (ColumnDesc.Name d) = cn) cols))"
proof (induction cols arbitrary: ac)
  case Nil
  then show ?case by simp
next
  case (Cons col cols)
  show ?case
    by (simp add: Cons.IH map_of_addColumn split: option.splits)
qed

lemma registerTable_keys:
  "fst ` set (TableColumns (registerTable ctx ti cols)) =
     insert (ToLower (TableInfo.Name ti)) (fst ` set (TableColumns ctx))"
  by (simp add: registerTable_def keys_update)

lemma registerTable_alias_own:
  "map_of (TableAliases (registerTable ctx ti cols)) (ToLower (TableInfo.Name ti)) =
     Some (TableInfo.Name ti)"
  by (simp add: registerTable_def update_conv')

lemma registerTable_alias_other:
  "k \<noteq> ToLower (TableInfo.Name ti) \<Longrightarrow> \<not> (Alias ti \<noteq> [] \<and> ToLower (Alias ti) = k) \<Longrightarrow>
   map_of (TableAliases (registerTable ctx ti cols)) k = map_of (TableAliases ctx) k"
  by (auto simp: registerTable_def update_conv')

lemma aliasesCoverTablesD:
  "aliasesCoverTables seen ctx \<Longrightarrow> k \<in> fst ` set (TableColumns ctx) \<Longrightarrow>
   \<exists>ti\<in>set seen. ToLower (TableInfo.Name ti) = k \<and>
      map_of (TableAliases ctx) k = Some (TableInfo.Name ti)"
  unfolding aliasesCoverTables_def list_all_iff list_ex_iff
  by fastforce

lemma aliasesCoverTablesI:
  "(\<And>k. k \<in> fst ` set (TableColumns ctx) \<Longrightarrow>
      \<exists>ti\<in>set seen. ToLower (TableInfo.Name ti) = k \<and>
        map_of (TableAliases ctx) k = Some (TableInfo.Name ti)) \<Longrightarrow>
   aliasesCoverTables seen ctx"
  unfolding aliasesCoverTables_def list_all_iff list_ex_iff
  by fastforce

lemma cover_mono:
  "aliasesCoverTables seen ctx \<Longrightarrow> aliasesCoverTables (seen @ extra) ctx"
  by (rule aliasesCoverTablesI) (auto dest: aliasesCoverTablesD)

text \<open>Registering a table keeps the first part of the invariant, the tables seen so far
  being extended by the new one, if its alias is not the name of a table seen so far.\<close>

lemma cover_register:
  assumes apart: "list_all (\<lambda>td. Alias ti = [] \<or>
                     ToLower (Alias ti) \<noteq> ToLower (TableInfo.Name td)) seen"
    and inv: "aliasesCoverTables seen ctx"
  shows "aliasesCoverTables (seen @ [ti]) (registerTable ctx ti cols)"
proof (rule aliasesCoverTablesI)
  let ?ctx' = "registerTable ctx ti cols"
  fix k assume k: "k \<in> fst ` set (TableColumns ?ctx')"
  show "\<exists>t\<in>set (seen @ [ti]). ToLower (TableInfo.Name t) = k \<and>
          map_of (TableAliases ?ctx') k = Some (TableInfo.Name t)"
  proof (cases "k = ToLower (TableInfo.Name ti)")
    case True
    then show ?thesis by (simp add: registerTable_alias_own)
  next
    case False
    with k have kin: "k \<in> fst ` set (TableColumns ctx)"
      unfolding registerTable_keys by simp
    from aliasesCoverTablesD[OF inv kin] obtain td where td: "td \<in> set seen"
      "ToLower (TableInfo.Name td) = k" "map_of (TableAliases ctx) k = Some (TableInfo.Name td)"
      by blast
    have "\<not> (Alias ti \<noteq> [] \<and> ToLower (Alias ti) = k)"
      using apart td(1,2) unfolding list_all_iff by auto
    from registerTable_alias_other[OF False this] td
    show ?thesis by auto
  qed
qed

lemma cover_step:
  assumes "list_all (\<lambda>td. Alias ti = [] \<or>
                     ToLower (Alias ti) \<noteq> ToLower (TableInfo.Name td)) seen"
    and "aliasesCoverTables seen ctx"
  shows "aliasesCoverTables (seen @ [ti]) (buildStep c ctx ti)"
  using cover_register[OF assms] cover_mono[OF assms(2)]
  by (simp add: buildStep_def split: option.splits)

lemma cover_fold:
  "aliasesApart tables \<Longrightarrow>
   list_all (\<lambda>td. list_all (\<lambda>tj. Alias tj = [] \<or>
                     ToLower (Alias tj) \<noteq> ToLower (TableInfo.Name td)) tables) seen \<Longrightarrow>
   aliasesCoverTables seen ctx \<Longrightarrow>
   aliasesCoverTables (seen @ tables) (foldl (buildStep c) ctx tables)"
proof (induction tables arbitrary: seen ctx)
  case Nil
  then show ?case by simp
next
  case (Cons ti rest)
  have a: "list_all (\<lambda>td. Alias ti = [] \<or>
              ToLower (Alias ti) \<noteq> ToLower (TableInfo.Name td)) seen"
    using Cons.prems(2) by (simp add: list_all_iff)
  have b: "aliasesApart rest" using Cons.prems(1) by simp
  have c: "list_all (\<lambda>td. list_all (\<lambda>tj. Alias tj = [] \<or>
              ToLower (Alias tj) \<noteq> ToLower (TableInfo.Name td)) rest) (seen @ [ti])"
    using Cons.prems(1,2) by (simp add: list_all_iff)
  from Cons.IH[OF b c cover_step[OF a Cons.prems(3)]]
  show ?case by simp
qed

lemma groupedColumns_append:
  "groupedColumns (tc @ [(k, cols)]) cn =
     groupedColumns tc cn @ filter (\<lambda>d. ToLower (ColumnDesc.Name d) = cn) cols"
  by (simp add: groupedColumns_def)

lemma union_step:
  assumes fresh: "ToLower (TableInfo.Name ti) \<notin> (\<lambda>ti. ToLower (TableInfo.Name ti)) ` set rest"
    and inv: "unionInv (ti # rest) ctx"
  shows "unionInv rest (buildStep c ctx ti)"
proof (cases "lookupColumns c ti")
  case None
  with inv show ?thesis by (auto simp: buildStep_def unionInv_def)
next
  case (Some cols)
  show ?thesis
  proof (cases "cols = []")
    case True
    with Some inv show ?thesis by (auto simp: buildStep_def unionInv_def)
  next
    case False
    let ?k = "ToLower (TableInfo.Name ti)"
    from inv have notin: "?k \<notin> fst ` set (TableColumns ctx)" by (auto simp: unionInv_def)
    have tc: "TableColumns (registerTable ctx ti cols) = TableColumns ctx @ [(?k, cols)]"
      by (simp add: registerTable_def update_fresh[OF notin])
    have keys: "fst ` set (TableColumns (registerTable ctx ti cols)) \<inter>
                (\<lambda>ti. ToLower (TableInfo.Name ti)) ` set rest = {}"
      using inv fresh unfolding tc by (auto simp: unionInv_def)
    from inv have old: "\<And>cn. map_of (AllColumns ctx) cn =
        (if groupedColumns (TableColumns ctx) cn = [] then None
         else Some (groupedColumns (TableColumns ctx) cn))"
      by (simp add: unionInv_def allColumnsIsUnion_def)
    have "allColumnsIsUnion (registerTable ctx ti cols)"
      unfolding allColumnsIsUnion_def tc groupedColumns_append
      by (simp add: registerTable_def map_of_addColumns old)
    with keys Some False show ?thesis by (simp add: buildStep_def unionInv_def)
  qed
qed

lemma union_fold:
  "distinct (map (\<lambda>ti. ToLower (TableInfo.Name ti)) tables) \<Longrightarrow> unionInv tables ctx \<Longrightarrow>
   unionInv [] (foldl (buildStep c) ctx tables)"
proof (induction tables arbitrary: ctx)
  case Nil
  then show ?case by simp
next
  case (Cons ti tables)
  from Cons.prems(1)
  have fresh: "ToLower (TableInfo.Name ti) \<notin> (\<lambda>ti. ToLower (TableInfo.Name ti)) ` set tables"
    and d: "distinct (map (\<lambda>ti. ToLower (TableInfo.Name ti)) tables)" by auto
  show ?case
    using Cons.IH[OF d union_step[OF fresh Cons.prems(2)]] by simp
qed

text \<open>
  C7 (as amended): for every catalog and every table-info list whose names differ up to
  case and in which no alias is, up to case, the name of a table that stands earlier in
  the list: after \<open>buildColumnContext\<close>, every key of \<open>tableColumns\<close> is a key of
  \<open>tableAliases\<close> and is mapped there to the canonical name of its table (the name, as
  written, of the table info of the list whose lower-cased name is the key), and
  \<open>allColumns\<close> holds under every lower-cased column name exactly the descriptors of that
  name of the column lists of \<open>tableColumns\<close>, in the order of registration, and nothing
  under any other key.
\<close>

theorem context_invariant:
  assumes "tableNamesApart tables" "aliasesApart tables"
  shows "aliasesCoverTables tables (buildColumnContext c tables) \<and>
         allColumnsIsUnion (buildColumnContext c tables)"
proof
  have "aliasesCoverTables [] emptyContext"
    by (simp add: emptyContext_def aliasesCoverTables_def)
  from cover_fold[OF assms(2) _ this]
  show "aliasesCoverTables tables (buildColumnContext c tables)"
    by (simp add: buildColumnContext_def)
next
  have "unionInv tables emptyContext"
    by (simp add: unionInv_def emptyContext_def allColumnsIsUnion_def groupedColumns_def)
  from union_fold[OF _ this] assms(1)
  show "allColumnsIsUnion (buildColumnContext c tables)"
    by (simp add: buildColumnContext_def unionInv_def tableNamesApart_def)
qed

theorem context_invariant_witness:
  "tableNamesApart [tableInfo [] ''orders'' ''users'', tableInfo [] ''Users'' ''u''] \<and>
   aliasesApart [tableInfo [] ''orders'' ''users'', tableInfo [] ''Users'' ''u''] \<and>
   TableColumns
     (buildColumnContext exCatalog
        [tableInfo [] ''orders'' ''users'', tableInfo [] ''Users'' ''u'']) =
     [(''orders'', [\<lparr> Table = ''orders'', Name = ''id'' \<rparr>,
                    \<lparr> Table = ''orders'', Name = ''user_id'' \<rparr>]),
      (''users'', [\<lparr> Table = ''users'', Name = ''id'' \<rparr>, \<lparr> Table = ''users'', Name = ''name'' \<rparr>])] \<and>
   TableAliases
     (buildColumnContext exCatalog
        [tableInfo [] ''orders'' ''users'', tableInfo [] ''Users'' ''u'']) =
     [(''users'', ''Users''), (''orders'', ''orders''), (''u'', ''Users'')] \<and>
   aliasesCoverTables [tableInfo [] ''orders'' ''users'', tableInfo [] ''Users'' ''u'']
     (buildColumnContext exCatalog
        [tableInfo [] ''orders'' ''users'', tableInfo [] ''Users'' ''u'']) \<and>
   allColumnsIsUnion
     (buildColumnContext exCatalog
        [tableInfo [] ''orders'' ''users'', tableInfo [] ''Users'' ''u''])"
proof -
  let ?ts = "[tableInfo [] ''orders'' ''users'', tableInfo [] ''Users'' ''u'']"
  have a: "tableNamesApart ?ts"
    by code_simp
  have b: "aliasesApart ?ts"
    by code_simp
  have c: "TableColumns (buildColumnContext exCatalog ?ts) =
     [(''orders'', [\<lparr> Table = ''orders'', Name = ''id'' \<rparr>,
                    \<lparr> Table = ''orders'', Name = ''user_id'' \<rparr>]),
      (''users'', [\<lparr> Table = ''users'', Name = ''id'' \<rparr>, \<lparr> Table = ''users'', Name = ''name'' \<rparr>])]"
    by code_simp
  have d: "TableAliases (buildColumnContext exCatalog ?ts) =
     [(''users'', ''Users''), (''orders'', ''orders''), (''u'', ''Users'')]"
    by code_simp
  show ?thesis using a b c d context_invariant[OF a b, of exCatalog] by simp
qed

theorem context_invariant_counterexample:
  "map_of (TableAliases (buildColumnContext exCatalog
          [tableInfo [] ''users'' [], tableInfo [] ''orders'' ''users''])) ''users'' =
     Some ''orders'' \<and>
   \<not> aliasesCoverTables [tableInfo [] ''users'' [], tableInfo [] ''orders'' ''users'']
       (buildColumnContext exCatalog
          [tableInfo [] ''users'' [], tableInfo [] ''orders'' ''users'']) \<and>
   \<not> allColumnsIsUnion
       (buildColumnContext exSchemaCatalog
          [tableInfo ''s1'' ''users'' [], tableInfo ''s2'' ''users'' []])"
proof -
  have t: "map_of (TableAliases (buildColumnContext exCatalog
          [tableInfo [] ''users'' [], tableInfo [] ''orders'' ''users''])) ''users'' =
     Some ''orders''"
    by code_simp
  have u: "\<not> aliasesCoverTables [tableInfo [] ''users'' [], tableInfo [] ''orders'' ''users'']
       (buildColumnContext exCatalog
          [tableInfo [] ''users'' [], tableInfo [] ''orders'' ''users''])"
    by code_simp
  let ?ctx = "buildColumnContext exSchemaCatalog
          [tableInfo ''s1'' ''users'' [], tableInfo ''s2'' ''users'' []]"
  have a: "map_of (AllColumns ?ctx) ''id'' = Some [\<lparr> Table = ''users'', Name = ''id'' \<rparr>]"
    by code_simp
  have b: "groupedColumns (TableColumns ?ctx) ''id'' = []"
    by code_simp
  have v: "\<not> allColumnsIsUnion ?ctx"
  proof
    assume "allColumnsIsUnion ?ctx"
    then have "map_of (AllColumns ?ctx) ''id'' =
        (if groupedColumns (TableColumns ?ctx) ''id'' = [] then None
         else Some (groupedColumns (TableColumns ?ctx) ''id''))"
      unfolding allColumnsIsUnion_def by (rule spec)
    with a b show False by simp
  qed
  from t u v show ?thesis by simp
qed

section \<open>Properties of the column resolver\<close>

lemma startsAt_Add [simp]:
  "startsAt p (AddError a b code m) = (posKey a = posKey p)"
  "startsAt p (AddWarning a b code m) = (posKey a = posKey p)"
  by (auto simp: startsAt_def AddError_def AddWarning_def mkDiagnostic_def posToRange_def
      posKey_def)

lemma ambiguity_starts:
  "d \<in> set (ambiguityCheck config ctx ident) \<Longrightarrow> startsAt p d \<Longrightarrow>
   posKey (IdPos ident) = posKey p"
  by (auto simp: ambiguityCheck_def split: option.splits if_splits)

lemma selectWhere_skipped:
  "posKey p \<in> set skip \<Longrightarrow>
   filter (startsAt p) (checkSelectWhereIdent config driver aliasMap ctx skip n) = []"
proof (cases n)
  case (Identifier ident)
  assume p: "posKey p \<in> set skip"
  show ?thesis
  proof (cases "skipsIdentifier driver aliasMap skip ident")
    case True
    then show ?thesis using Identifier by simp
  next
    case False
    then have "posKey (IdPos ident) \<noteq> posKey p"
      using p by (auto simp: skipsIdentifier_def)
    then show ?thesis
      using Identifier False
      by (auto simp: filter_empty_conv dest: ambiguity_starts)
  qed
qed simp_all

lemma standalone_skipped:
  "posKey p \<in> set skip \<Longrightarrow>
   filter (startsAt p) (checkStandaloneIdent config driver aliasMap tables ctx skip n) = []"
proof (cases n)
  case (Identifier ident)
  assume p: "posKey p \<in> set skip"
  show ?thesis
  proof (cases "skipsIdentifier driver aliasMap skip ident")
    case True
    then show ?thesis using Identifier by simp
  next
    case False
    then have "posKey (IdPos ident) \<noteq> posKey p"
      using p by (auto simp: skipsIdentifier_def)
    then show ?thesis
      using Identifier False
      by (auto simp: filter_empty_conv dest: ambiguity_starts)
  qed
qed simp_all

lemma filter_concat_empty:
  "(\<And>x. x \<in> set xs \<Longrightarrow> filter P (f x) = []) \<Longrightarrow> filter P (concat (map f xs)) = []"
  by (induction xs) auto

lemma qualified_apart:
  assumes "positionsApart parent child n"
  shows "filter (startsAt (IdPos parent)) (validateQualified c aliasMap tables ctx n) = []"
    and "filter (startsAt (IdPos child)) (validateQualified c aliasMap tables ctx n) = []"
  using assms by (cases n; auto simp: Let_def split: option.splits)+

lemma buildStep_nonempty: "columnsNonempty ctx \<Longrightarrow> columnsNonempty (buildStep c ctx ti)"
proof -
  assume inv: "columnsNonempty ctx"
  have "columnsNonempty (registerTable ctx ti cols)" if "cols \<noteq> []" for cols
    unfolding columnsNonempty_def
  proof (clarify)
    fix k assume "(k, []) \<in> set (TableColumns (registerTable ctx ti cols))"
    then have "(k, []) \<in> insert (ToLower (TableInfo.Name ti), cols) (set (TableColumns ctx))"
      using set_alist_update by (fastforce simp: registerTable_def)
    with that inv show False by (auto simp: columnsNonempty_def)
  qed
  with inv show ?thesis by (simp add: buildStep_def split: option.splits)
qed

lemma build_nonempty:
  "columnsNonempty ctx \<Longrightarrow> columnsNonempty (foldl (buildStep c) ctx tables)"
  by (induction tables arbitrary: ctx) (simp_all add: buildStep_nonempty)

lemma context_columns_nonempty:
  "map_of (TableColumns (buildColumnContext c tables)) k = Some cols \<Longrightarrow> cols \<noteq> []"
proof -
  assume a: "map_of (TableColumns (buildColumnContext c tables)) k = Some cols"
  have "columnsNonempty emptyContext" by (simp add: columnsNonempty_def emptyContext_def)
  then have "columnsNonempty (buildColumnContext c tables)"
    unfolding buildColumnContext_def by (rule build_nonempty)
  with map_of_SomeD[OF a] show ?thesis by (auto simp: columnsNonempty_def)
qed

lemma qualified_missing:
  assumes "map_of (TableColumns ctx) (ToLower (resolveQualifier aliasMap (NoQuoteString parent))) =
             Some cols"
    and "cols \<noteq> []"
    and "\<not> list_ex (\<lambda>col. EqualFold (ColumnDesc.Name col) (NoQuoteString child)) cols"
    and "\<not> IsWildcard child" "NoQuoteString child \<noteq> ''*''" "NoQuoteString child \<noteq> []"
  shows "validateQualified c aliasMap tables ctx (MemberIdentifier toks parent child ps en) =
           [AddError (IdPos child) (IdEnd child) CodeColumnNotFound
              (FormatError CodeColumnNotFound
                 [NoQuoteString child, resolveQualifier aliasMap (NoQuoteString parent)])]"
  using assms
  by (auto simp: Let_def resolveQualifier_def findColumns_def split: option.splits)

lemma member_skipped:
  assumes "MemberIdentifier toks parent child ps en \<in> set (walk parsed)"
  shows "posKey (IdPos parent) \<in> set (skipIdentifierPositions api parsed)"
    and "posKey (IdPos child) \<in> set (skipIdentifierPositions api parsed)"
  using assms by (force simp: skipIdentifierPositions_def)+

text \<open>
  C5: let a qualified reference \<open>parent.child\<close> occur in the parsed text, with positions
  that no other qualified reference shares, and let its qualifier resolve, through the
  alias map or directly, to a table whose columns are in the context of the pass and have
  no column named like the child up to case (the child is a name, not a wildcard). Then
  among the diagnostics of the column validator exactly one starts at the child's
  position: the column-not-found error over the child's span, with the column and the
  table name; and none starts at the qualifier's position. In particular the three
  unqualified sweeps report neither part.
\<close>

theorem qualified_column_not_found_once:
  assumes "CheckColumnReferences config"
    and "Parse api text = Inr parsed"
    and "walk parsed = pre @ MemberIdentifier toks parent child ps en # post"
    and "list_all (positionsApart parent child) (pre @ post)"
    and "posKey (IdPos parent) \<noteq> posKey (IdPos child)"
    and "map_of (TableColumns (passContext c api parsed))
           (ToLower (resolveQualifier (passAliases api parsed) (NoQuoteString parent))) =
         Some cols"
    and "\<not> list_ex (\<lambda>col. EqualFold (ColumnDesc.Name col) (NoQuoteString child)) cols"
    and "\<not> IsWildcard child" "NoQuoteString child \<noteq> ''*''" "NoQuoteString child \<noteq> []"
  shows "filter (startsAt (IdPos child))
           (ColumnValidator_Validate api config (Some c) driver text) =
           [AddError (IdPos child) (IdEnd child) CodeColumnNotFound
              (FormatError CodeColumnNotFound
                 [NoQuoteString child,
                  resolveQualifier (passAliases api parsed) (NoQuoteString parent)])] \<and>
         filter (startsAt (IdPos parent))
           (ColumnValidator_Validate api config (Some c) driver text) = []"
proof -
  let ?m = "MemberIdentifier toks parent child ps en"
  let ?tables = "passTables api parsed" and ?aliases = "passAliases api parsed"
  let ?ctx = "passContext c api parsed" and ?skip = "skipIdentifierPositions api parsed"
  let ?vq = "validateQualified c ?aliases ?tables ?ctx"
  let ?sw = "checkSelectWhereIdent config driver ?aliases ?ctx ?skip"
  let ?st = "checkStandaloneIdent config driver ?aliases ?tables ?ctx ?skip"
  let ?S1 = "concat (map (\<lambda>node. concat (map ?sw (walk node))) (ExtractSelectExpr api parsed))"
  let ?S2 = "concat (map (\<lambda>node. concat (map ?sw (walk node)))
               (ExtractWhereCondition api parsed))"
  let ?S3 = "concat (map ?st (walk parsed))"
  have V: "ColumnValidator_Validate api config (Some c) driver text =
             concat (map ?vq pre) @ ?vq ?m @ concat (map ?vq post) @ ?S1 @ ?S2 @ ?S3"
    using assms(1,2)
    by (simp add: ColumnValidator_Validate_def Let_def assms(3) passTables_def passAliases_def
        passContext_def)
  have mem: "?m \<in> set (walk parsed)" by (simp add: assms(3))
  have skipP: "posKey (IdPos parent) \<in> set ?skip"
    and skipC: "posKey (IdPos child) \<in> set ?skip"
    using member_skipped[OF mem] by simp_all
  have S: "filter (startsAt p) ?S1 = []" "filter (startsAt p) ?S2 = []"
          "filter (startsAt p) ?S3 = []" if "posKey p \<in> set ?skip" for p
    using that
    by (auto intro!: filter_concat_empty simp: selectWhere_skipped standalone_skipped)
  have apartPre: "positionsApart parent child n" if "n \<in> set pre" for n
    using assms(4) that by (auto simp: list_all_iff)
  have apartPost: "positionsApart parent child n" if "n \<in> set post" for n
    using assms(4) that by (auto simp: list_all_iff)
  note qa = qualified_apart[where parent = parent and child = child]
  have preC: "filter (startsAt (IdPos child)) (concat (map ?vq pre)) = []"
    by (rule filter_concat_empty) (rule qa(2), rule apartPre)
  have postC: "filter (startsAt (IdPos child)) (concat (map ?vq post)) = []"
    by (rule filter_concat_empty) (rule qa(2), rule apartPost)
  have preP: "filter (startsAt (IdPos parent)) (concat (map ?vq pre)) = []"
    by (rule filter_concat_empty) (rule qa(1), rule apartPre)
  have postP: "filter (startsAt (IdPos parent)) (concat (map ?vq post)) = []"
    by (rule filter_concat_empty) (rule qa(1), rule apartPost)
  have cols: "cols \<noteq> []"
    using assms(6) context_columns_nonempty by (simp add: passContext_def)
  have m: "?vq ?m = [AddError (IdPos child) (IdEnd child) CodeColumnNotFound
              (FormatError CodeColumnNotFound
                 [NoQuoteString child, resolveQualifier ?aliases (NoQuoteString parent)])]"
    by (rule qualified_missing[OF assms(6) cols assms(7-10)])
  show ?thesis
    unfolding V m
    using assms(5) by (simp add: preC postC preP postP S[OF skipP] S[OF skipC])
qed

theorem qualified_column_not_found_once_witness:
  "CheckColumnReferences DefaultConfig \<and>
   Parse exQualParser exQualText = Inr exQualTree \<and>
   walk exQualTree =
     take 4 (walk exQualTree) @
     MemberIdentifier
       [Identifier (identAt ''u'' 8), Item (symbolTok OtherKind ''.'' 9),
        Identifier (identAt ''nam'' 10)]
       (identAt ''u'' 8) (identAt ''nam'' 10) (mkPos 1 8) (mkPos 1 13) #
     drop 5 (walk exQualTree) \<and>
   list_all (positionsApart (identAt ''u'' 8) (identAt ''nam'' 10))
     (take 4 (walk exQualTree) @ drop 5 (walk exQualTree)) \<and>
   posKey (IdPos (identAt ''u'' 8)) \<noteq> posKey (IdPos (identAt ''nam'' 10)) \<and>
   map_of (TableColumns (passContext exCatalog exQualParser exQualTree))
     (ToLower (resolveQualifier (passAliases exQualParser exQualTree)
        (NoQuoteString (identAt ''u'' 8)))) =
     Some [\<lparr> Table = ''users'', Name = ''id'' \<rparr>, \<lparr> Table = ''users'', Name = ''name'' \<rparr>] \<and>
   \<not> list_ex (\<lambda>col. EqualFold (ColumnDesc.Name col) (NoQuoteString (identAt ''nam'' 10)))
       [\<lparr> Table = ''users'', Name = ''id'' \<rparr>, \<lparr> Table = ''users'', Name = ''name'' \<rparr>] \<and>
   \<not> IsWildcard (identAt ''nam'' 10) \<and>
   NoQuoteString (identAt ''nam'' 10) \<noteq> ''*'' \<and> NoQuoteString (identAt ''nam'' 10) \<noteq> [] \<and>
   filter (startsAt (mkPos 1 10))
     (ColumnValidator_Validate exQualParser DefaultConfig (Some exCatalog) ''mysql'' exQualText) =
     [AddError (mkPos 1 10) (mkPos 1 13) CodeColumnNotFound
        (FormatError CodeColumnNotFound [''nam'', ''users''])] \<and>
   filter (startsAt (mkPos 1 8))
     (ColumnValidator_Validate exQualParser DefaultConfig (Some exCatalog) ''mysql'' exQualText) =
     []"
proof -
  let ?cols = "[\<lparr> Table = ''users'', Name = ''id'' \<rparr>, \<lparr> Table = ''users'', Name = ''name'' \<rparr>]"
  have a: "CheckColumnReferences DefaultConfig" by code_simp
  have b: "Parse exQualParser exQualText = Inr exQualTree" by code_simp
  have c: "walk exQualTree =
     take 4 (walk exQualTree) @
     MemberIdentifier
       [Identifier (identAt ''u'' 8), Item (symbolTok OtherKind ''.'' 9),
        Identifier (identAt ''nam'' 10)]
       (identAt ''u'' 8) (identAt ''nam'' 10) (mkPos 1 8) (mkPos 1 13) #
     drop 5 (walk exQualTree)" by code_simp
  have d: "list_all (positionsApart (identAt ''u'' 8) (identAt ''nam'' 10))
     (take 4 (walk exQualTree) @ drop 5 (walk exQualTree))" by code_simp
  have e: "posKey (IdPos (identAt ''u'' 8)) \<noteq> posKey (IdPos (identAt ''nam'' 10))"
    by code_simp
  have f: "map_of (TableColumns (passContext exCatalog exQualParser exQualTree))
     (ToLower (resolveQualifier (passAliases exQualParser exQualTree)
        (NoQuoteString (identAt ''u'' 8)))) = Some ?cols" by code_simp
  have g: "\<not> list_ex (\<lambda>col. EqualFold (ColumnDesc.Name col) (NoQuoteString (identAt ''nam'' 10)))
       ?cols" by code_simp
  have h: "\<not> IsWildcard (identAt ''nam'' 10)" by code_simp
  have i: "NoQuoteString (identAt ''nam'' 10) \<noteq> ''*''" by code_simp
  have j: "NoQuoteString (identAt ''nam'' 10) \<noteq> []" by code_simp
  have k: "IdPos (identAt ''nam'' 10) = mkPos 1 10" "IdEnd (identAt ''nam'' 10) = mkPos 1 13"
    "IdPos (identAt ''u'' 8) = mkPos 1 8" "NoQuoteString (identAt ''nam'' 10) = ''nam''"
    "resolveQualifier (passAliases exQualParser exQualTree) (NoQuoteString (identAt ''u'' 8)) =
       ''users''"
    by code_simp+
  show ?thesis
    using a b c d e f g h i j
      qualified_column_not_found_once[OF a b c d e f g h i j, of "''mysql''"]
    unfolding k by simp
qed

subsection \<open>Ambiguous columns\<close>

lemma remdups_snoc: "remdups (ys @ [x]) = filter (\<lambda>y. y \<noteq> x) (remdups ys) @ [x]"
  by (induction ys) auto

lemma firstSeen_Cons: "firstSeen (x # xs) = x # filter (\<lambda>y. y \<noteq> x) (firstSeen xs)"
  by (simp add: firstSeen_def remdups_snoc rev_filter)

lemma uniqueTables_fold:
  "foldl (\<lambda>unique c. if Table c \<in> set unique then unique else unique @ [Table c]) acc cols =
     acc @ filter (\<lambda>t. t \<notin> set acc) (firstSeen (map Table cols))"
proof (induction cols arbitrary: acc)
  case Nil
  then show ?case by (simp add: firstSeen_def)
next
  case (Cons col cols)
  show ?case
  proof (cases "Table col \<in> set acc")
    case True
    then have "filter (\<lambda>t. t \<notin> set acc)
                 (filter (\<lambda>y. y \<noteq> Table col) (firstSeen (map Table cols))) =
               filter (\<lambda>t. t \<notin> set acc) (firstSeen (map Table cols))"
      by (auto intro: filter_cong)
    with True show ?thesis by (simp add: Cons.IH firstSeen_Cons)
  next
    case False
    have "filter (\<lambda>t. t \<notin> set (acc @ [Table col])) (firstSeen (map Table cols)) =
          filter (\<lambda>t. t \<notin> set acc)
            (filter (\<lambda>y. y \<noteq> Table col) (firstSeen (map Table cols)))"
      by (auto intro: filter_cong)
    with False show ?thesis by (simp add: Cons.IH firstSeen_Cons)
  qed
qed

text \<open>The table names of the message: every table of the descriptors once, in the
  order of their first occurrences.\<close>

lemma uniqueTables_firstSeen: "uniqueTables cols = firstSeen (map Table cols)"
  by (simp add: uniqueTables_def uniqueTables_fold)

lemma uniqueTables_distinct: "distinct (uniqueTables cols)"
  by (simp add: uniqueTables_firstSeen firstSeen_def)

lemma uniqueTables_set: "set (uniqueTables cols) = Table ` set cols"
  by (simp add: uniqueTables_firstSeen firstSeen_def)

lemma two_tables:
  assumes "c1 \<in> set cols" "c2 \<in> set cols" "Table c1 \<noteq> Table c2"
  shows "length cols > 1" and "length (uniqueTables cols) > 1"
proof -
  have "{Table c1, Table c2} \<subseteq> set (uniqueTables cols)"
    using assms(1,2) by (simp add: uniqueTables_set)
  then have "card {Table c1, Table c2} \<le> card (set (uniqueTables cols))"
    by (intro card_mono) simp_all
  then have two: "2 \<le> length (uniqueTables cols)"
    using assms(3) by (simp add: distinct_card[OF uniqueTables_distinct])
  then show "length (uniqueTables cols) > 1" by simp
  have "length (uniqueTables cols) \<le> length cols"
    by (simp add: uniqueTables_firstSeen firstSeen_def)
       (metis length_map length_remdups_leq length_rev)
  with two show "length cols > 1" by simp
qed

text \<open>An identifier that no sweep skips, with descriptors of two tables under its
  name: each sweep that reaches it adds one ambiguous-column warning at its span.\<close>

lemma ambiguous_reported:
  assumes "WarnOnAmbiguousColumn config"
    and "\<not> skipsIdentifier driver aliasMap skip ident"
    and "map_of (AllColumns ctx) (ToLower (NoQuoteString ident)) = Some cols"
    and "c1 \<in> set cols" "c2 \<in> set cols" "Table c1 \<noteq> Table c2"
  shows "checkSelectWhereIdent config driver aliasMap ctx skip (Identifier ident) =
           [AddWarning (IdPos ident) (IdEnd ident) CodeAmbiguousColumn
              (FormatError CodeAmbiguousColumn
                 [NoQuoteString ident, Join (firstSeen (map Table cols)) '', ''])]"
    and "checkStandaloneIdent config driver aliasMap tables ctx skip (Identifier ident) =
           [AddWarning (IdPos ident) (IdEnd ident) CodeAmbiguousColumn
              (FormatError CodeAmbiguousColumn
                 [NoQuoteString ident, Join (firstSeen (map Table cols)) '', ''])]"
  using assms two_tables[OF assms(4-6)]
  by (simp_all add: ambiguityCheck_def uniqueTables_firstSeen)

text \<open>
  C1: on the text \<open>SELECT id FROM users, orders\<close>, with the catalog in which \<open>users\<close>
  and \<open>orders\<close> both have a column \<open>id\<close>, column checks and ambiguity warnings on, the
  column validator adds two ambiguous-column warnings for the one occurrence of \<open>id\<close>
  (one in the sweep over the SELECT list, one in the sweep over the entire statement),
  each naming \<open>users, orders\<close>, and \<open>Lint\<close> returns both.
\<close>

theorem ambiguous_reported_twice:
  "ColumnValidator_Validate exParser DefaultConfig (Some exCatalog) ''mysql'' exText =
     [ambiguousIdWarning, ambiguousIdWarning] \<and>
   Lint id exParser DefaultConfig (Some exCatalog) ''mysql'' exText =
     ([implicitJoinWarning 21, ambiguousIdWarning, ambiguousIdWarning, implicitJoinWarning 21],
      None)"
  by code_simp

section \<open>Properties of the coordinator\<close>

text \<open>
  C10: for every input text, configuration and catalog (also none), and whatever the
  parser answers, the error value that \<open>Lint\<close> returns is nil.
\<close>

theorem Lint_error_nil: "snd (Lint order api config dbCache driver text) = None"
  by (simp add: Lint_def split: sum.split)

text \<open>
  C4: for an enabled linter and a text on which parsing fails, \<open>Lint\<close> returns exactly one
  diagnostic and nothing from any validator: the error with code syntax-error that is
  built from the zero position. Its range is what \<open>posToRange\<close> makes of the zero
  position: line -1, character -1, at the start and at the end.
\<close>

theorem Lint_parse_failure:
  assumes "Enabled config" "Parse api text = Inl err"
  shows "Lint order api config dbCache driver text =
           ([\<lparr> Range = \<lparr> Start = \<lparr> PLine = - 1, Character = - 1 \<rparr>,
                         End = \<lparr> PLine = - 1, Character = - 1 \<rparr> \<rparr>,
               Severity = SeverityError, Code = CodeSyntaxError, Source = ''sqls'',
               Message = ''Failed to parse SQL: '' @ err \<rparr>], None)"
  using assms
  by (simp add: Lint_def limitDiagnostics_def AddError_def mkDiagnostic_def posToRange_def
      zeroPos_def)

theorem Lint_parse_failure_witness:
  "Enabled DefaultConfig \<and> Parse exParser ''SELEC id'' = Inl ''syntax error'' \<and>
   Lint id exParser DefaultConfig (Some exCatalog) ''mysql'' ''SELEC id'' =
     ([\<lparr> Range = \<lparr> Start = \<lparr> PLine = - 1, Character = - 1 \<rparr>,
                   End = \<lparr> PLine = - 1, Character = - 1 \<rparr> \<rparr>,
         Severity = SeverityError, Code = CodeSyntaxError, Source = ''sqls'',
         Message = ''Failed to parse SQL: syntax error'' \<rparr>], None)"
proof -
  have a: "Enabled DefaultConfig" by (simp add: DefaultConfig_def)
  have b: "Parse exParser ''SELEC id'' = Inl ''syntax error''"
    by (simp add: exParser_def exText_def)
  show ?thesis using a b Lint_parse_failure[OF a b] by simp
qed

subsection \<open>No catalog\<close>

lemmas Code_defs =
  CodeSyntaxError_def CodeAmbiguousColumn_def CodeInvalidSchema_def CodeTableNotFound_def
  CodeColumnNotFound_def CodeUnusedAlias_def CodeSelectStar_def CodeNullComparison_def
  CodeImplicitJoin_def CodeReservedWordCase_def CodeMissingSemicolon_def

lemma Code_Add [simp]:
  "Code (AddError a b c m) = c" "Code (AddWarning a b c m) = c"
  "Code (AddInfo a b c m) = c" "Code (AddHint a b c m) = c"
  by (simp_all add: AddError_def AddWarning_def AddInfo_def AddHint_def mkDiagnostic_def)

lemma addWithSeverity_code: "d \<in> set (addWithSeverity sev a b c m) \<Longrightarrow> Code d = c"
  by (cases sev) (auto simp: addWithSeverity_def)

lemma syntax_codes:
  "d \<in> set (SyntaxValidator_Validate config parsed) \<Longrightarrow> Code d = CodeNullComparison"
  by (auto simp: SyntaxValidator_Validate_def checkNullComparisons_def nullComparison_def Let_def
      split: if_splits Node.splits)

lemma style_codes:
  "d \<in> set (StyleValidator_Validate config parsed) \<Longrightarrow>
   Code d = CodeReservedWordCase \<or> Code d = CodeMissingSemicolon"
  by (auto simp: StyleValidator_Validate_def checkReservedWordCase_def reservedWordCase_def
      emitCaseDiagnostic_def checkMissingSemicolon_def missingSemicolon_def Let_def
      dest: addWithSeverity_code split: if_splits Node.splits option.splits)

lemma selectStarScan_codes: "d \<in> set (selectStarScan toks saw) \<Longrightarrow> Code d = CodeSelectStar"
  by (induction toks saw rule: selectStarScan.induct) (auto split: if_splits)

lemma selectStar_codes: "d \<in> set (CheckSelectStar config parsed) \<Longrightarrow> Code d = CodeSelectStar"
  by (auto simp: CheckSelectStar_def selectStar_def dest: selectStarScan_codes
      split: if_splits Node.splits)

lemma unusedAlias_codes:
  "d \<in> set (CheckUnusedAliases order api config parsed) \<Longrightarrow> Code d = CodeUnusedAlias"
  by (auto simp: CheckUnusedAliases_def Let_def split: if_splits)

lemma implicitJoin_codes:
  "d \<in> set (CheckImplicitJoins api text) \<Longrightarrow> Code d = CodeImplicitJoin"
  by (auto simp: CheckImplicitJoins_def split: sum.splits option.splits)

lemma limitDiagnostics_subset: "set (limitDiagnostics config ds) \<subseteq> set ds"
  by (auto simp: limitDiagnostics_def dest: in_set_takeD)

lemma runValidators_None:
  "runValidators order api config None driver text parsed =
     runWithoutCatalog order api config text parsed"
  by (simp add: runValidators_def runWithoutCatalog_def TableValidator_Validate_def
      ColumnValidator_Validate_def)

lemma runWithoutCatalog_codes:
  "d \<in> set (runWithoutCatalog order api config text parsed) \<Longrightarrow> Code d \<notin> semanticCodes"
  by (auto simp: runWithoutCatalog_def semanticCodes_def Code_defs
      dest!: syntax_codes style_codes selectStar_codes unusedAlias_codes implicitJoin_codes
      split: if_splits)

text \<open>
  C3: with no catalog attached, no diagnostic that \<open>Lint\<close> returns has the code
  table-not-found, invalid-schema, column-not-found or ambiguous-column, whatever the
  text, the configuration and the parser's answer are; and when the linter is enabled and
  the text parses, what it returns is the (truncated) list of the diagnostics of the
  syntax validator, the style validator, the select-star check, the unused-alias check and
  implicit-join detection, each under its toggle.
\<close>

theorem no_catalog_no_semantic:
  "(\<forall>d \<in> set (fst (Lint order api config None driver text)). Code d \<notin> semanticCodes) \<and>
   (\<forall>parsed. Enabled config \<and> Parse api text = Inr parsed \<longrightarrow>
      fst (Lint order api config None driver text) =
        limitDiagnostics config (runWithoutCatalog order api config text parsed))"
proof (intro conjI ballI allI impI)
  fix d assume d: "d \<in> set (fst (Lint order api config None driver text))"
  show "Code d \<notin> semanticCodes"
  proof (cases "Parse api text")
    case (Inl err)
    with d show ?thesis
      by (auto simp: Lint_def limitDiagnostics_def semanticCodes_def Code_defs split: if_splits)
  next
    case (Inr parsed)
    with d have "d \<in> set (runWithoutCatalog order api config text parsed)"
      using limitDiagnostics_subset
      by (auto simp: Lint_def runValidators_None split: if_splits)
    then show ?thesis by (rule runWithoutCatalog_codes)
  qed
next
  fix parsed assume "Enabled config \<and> Parse api text = Inr parsed"
  then show "fst (Lint order api config None driver text) =
        limitDiagnostics config (runWithoutCatalog order api config text parsed)"
    by (simp add: Lint_def runValidators_None)
qed

theorem no_catalog_no_semantic_witness:
  "Enabled DefaultConfig \<and> Parse exParser exText = Inr exTree \<and>
   WarnOnImplicitJoin DefaultConfig \<and>
   fst (Lint id exParser DefaultConfig None ''mysql'' exText) = [implicitJoinWarning 21] \<and>
   limitDiagnostics DefaultConfig (runWithoutCatalog id exParser DefaultConfig exText exTree) =
     [implicitJoinWarning 21] \<and>
   Code (implicitJoinWarning 21) = CodeImplicitJoin \<and>
   Code (implicitJoinWarning 21) \<notin> semanticCodes"
proof -
  have a: "Enabled DefaultConfig" by code_simp
  have b: "Parse exParser exText = Inr exTree" by code_simp
  have c: "WarnOnImplicitJoin DefaultConfig" by code_simp
  have e: "limitDiagnostics DefaultConfig
             (runWithoutCatalog id exParser DefaultConfig exText exTree) =
           [implicitJoinWarning 21]" by code_simp
  have f: "Code (implicitJoinWarning 21) = CodeImplicitJoin" by code_simp
  note t = no_catalog_no_semantic[of id exParser DefaultConfig "''mysql''" exText]
  from t a b e have l: "fst (Lint id exParser DefaultConfig None ''mysql'' exText) =
      [implicitJoinWarning 21]" by simp
  with t have "Code (implicitJoinWarning 21) \<notin> semanticCodes" by simp
  with a b c e f l show ?thesis by simp
qed

subsection \<open>Two runs\<close>

text \<open>When the unused-alias warning is off, the order of the range over the alias
  definitions does not reach the result.\<close>

lemma Lint_order_irrelevant:
  "\<not> WarnOnUnusedAlias config \<Longrightarrow>
   Lint order api config dbCache driver text = Lint order' api config dbCache driver text"
  by (simp add: Lint_def runValidators_def split: sum.split)

text \<open>
  C2: on the text \<open>SELECT 1 FROM users u, orders o\<close> with the unused-alias warning on,
  two runs of \<open>Lint\<close> on the same text, configuration and catalog that range over the two
  alias definitions in the two possible orders return the two unused-alias warnings in
  different orders: the lists differ.
\<close>

theorem unused_alias_order_differs:
  "rangeOrder id (aliasDefs exAliasParser exAliasTree) \<and>
   rangeOrder rev (aliasDefs exAliasParser exAliasTree) \<and>
   Lint id exAliasParser exAliasConfig None ''mysql'' exAliasText =
     ([unusedAliasWarning ''u'' 21, unusedAliasWarning ''o'' 31, implicitJoinWarning 22], None) \<and>
   Lint rev exAliasParser exAliasConfig None ''mysql'' exAliasText =
     ([unusedAliasWarning ''o'' 31, unusedAliasWarning ''u'' 21, implicitJoinWarning 22], None) \<and>
   unusedAliasWarning ''u'' 21 \<noteq> unusedAliasWarning ''o'' 31"
  by code_simp

end
